theory Spec2Isabelle
  imports Complex_Main "HOL-Library.Sublist"
begin

section \<open>Python values, exceptions and the library routines the services call\<close>

text \<open>
  The two services (\<^verbatim>\<open>src/backend/tsne_service.py\<close> and
  \<^verbatim>\<open>src/backend/reference_data.py\<close>) are glue around library calls. The
  model keeps every line of the glue and takes the results of the library calls
  (CSV reading, directory listing, the random draw, the manifold projection, the
  parsing and printing of floating-point numbers) as components of a \<open>world\<close>.

  A double is either a finite rational or one of the three special values.
\<close>

datatype pyfloat = Fin rat | PosInf | NegInf | NaN

text \<open>
  A decoded JSON value, which is also what a cell of a pandas record holds. A dict is
  the list of its items; lookup takes the binding of a key that \<open>map_of\<close> finds.
\<close>

datatype pyval =
    PNone
  | PBool bool
  | PInt int
  | PFloat pyfloat
  | PStr string
  | PList "pyval list"
  | PDict "(string \<times> pyval) list"

type_synonym pydict = "(string \<times> pyval) list"

text \<open>Exceptions carry the text that \<^verbatim>\<open>str(e)\<close> prints.\<close>

datatype exn =
    AttributeError string
  | ValueError string
  | TypeError string
  | OverflowError string
  | IndexError string
  | OtherError string

fun str_exn :: "exn \<Rightarrow> string" where
  "str_exn (AttributeError m) = m"
| "str_exn (ValueError m) = m"
| "str_exn (TypeError m) = m"
| "str_exn (OverflowError m) = m"
| "str_exn (IndexError m) = m"
| "str_exn (OtherError m) = m"

fun type_name :: "pyval \<Rightarrow> string" where
  "type_name PNone = ''NoneType''"
| "type_name (PBool _) = ''bool''"
| "type_name (PInt _) = ''int''"
| "type_name (PFloat _) = ''float''"
| "type_name (PStr _) = ''str''"
| "type_name (PList _) = ''list''"
| "type_name (PDict _) = ''dict''"

text \<open>
  \<^verbatim>\<open>obj.get(key, default)\<close>: only a dict has the method; on every other
  JSON value the attribute lookup raises \<^verbatim>\<open>AttributeError\<close>.
\<close>

definition dict_get :: "pydict \<Rightarrow> string \<Rightarrow> pyval \<Rightarrow> pyval" where
  "dict_get d k dflt = (case map_of d k of None \<Rightarrow> dflt | Some v \<Rightarrow> v)"

fun py_get :: "pyval \<Rightarrow> string \<Rightarrow> pyval \<Rightarrow> exn + pyval" where
  "py_get (PDict d) k dflt = Inr (dict_get d k dflt)"
| "py_get v k dflt =
     Inl (AttributeError ([CHR 0x27] @ type_name v @ [CHR 0x27] @ '' object has no attribute '' @
            [CHR 0x27] @ ''get'' @ [CHR 0x27]))"

subsection \<open>Conversion of an integer to a double\<close>

text \<open>
  \<^verbatim>\<open>float(i)\<close> on a Python integer rounds to 53 significant bits, ties to even,
  and raises \<^verbatim>\<open>OverflowError\<close> when the rounded magnitude reaches \<open>2 ^ 1024\<close>.
\<close>

fun bit_length :: "nat \<Rightarrow> nat" where
  "bit_length n = (if n = 0 then 0 else Suc (bit_length (n div 2)))"

declare bit_length.simps [simp del]

definition round_to_53 :: "nat \<Rightarrow> nat" where
  "round_to_53 a =
     (let n = bit_length a in
      if n \<le> 53 then a
      else let sh = n - 53;
               q = a div 2 ^ sh;
               r = a mod 2 ^ sh;
               half = 2 ^ (sh - 1);
               q' = (if half < r \<or> (r = half \<and> odd q) then q + 1 else q)
           in q' * 2 ^ sh)"

definition float_of_int :: "int \<Rightarrow> exn + pyfloat" where
  "float_of_int i =
     (let m = round_to_53 (nat \<bar>i\<bar>) in
      if 2 ^ 1024 \<le> m then Inl (OverflowError ''int too large to convert to float'')
      else Inr (Fin (of_int (sgn i * int m))))"

subsection \<open>The world outside the handlers\<close>

record tsne_params =
  n_components :: nat
  perplexity :: int
  random_state :: nat
  n_iter :: nat

type_synonym matrix = "pyfloat list list"

text \<open>
  \<^item> \<open>float_of_str\<close>: \<^verbatim>\<open>float(s)\<close> on a string, \<open>None\<close> when it raises
    \<^verbatim>\<open>ValueError\<close>;
  \<^item> \<open>repr_val\<close>: how an f-string prints a float, a list or a dict;
  \<^item> \<open>str_lower\<close>: \<^verbatim>\<open>str.lower\<close>, which knows the letters of every script;
  \<^item> \<open>path_exists\<close>, \<open>read_csv\<close>: \<^verbatim>\<open>os.path.exists\<close> and
    \<^verbatim>\<open>pd.read_csv(path).to_dict('records')\<close>, the latter with the exception it raises;
  \<^item> \<open>data_dir\<close>, \<open>listdir\<close>: the reference server's data directory and what
    \<^verbatim>\<open>os.listdir\<close> returns for it;
  \<^item> \<open>random_choice n k\<close>: \<^verbatim>\<open>np.random.choice(n, k, replace=False)\<close>;
  \<^item> \<open>fit_transform\<close>: \<^verbatim>\<open>TSNE(...).fit_transform(X)\<close>.
\<close>

record world =
  float_of_str :: "string \<Rightarrow> pyfloat option"
  repr_val :: "pyval \<Rightarrow> string"
  str_lower :: "string \<Rightarrow> string"
  path_exists :: "string \<Rightarrow> bool"
  read_csv :: "string \<Rightarrow> exn + pydict list"
  data_dir :: string
  listdir :: "exn + string list"
  random_choice :: "nat \<Rightarrow> nat \<Rightarrow> nat list"
  fit_transform :: "tsne_params \<Rightarrow> matrix \<Rightarrow> exn + matrix"

section \<open>The projection service\<close>

subsection \<open>Feature selection and dataset loading\<close>

definition get_important_features :: "string \<Rightarrow> string list" where
  "get_important_features city =
     (if city = ''Baltimore'' then
        [''PTR_SEQUENCE_NUM'', ''CREAT_DON'', ''DAYSQAIT_ALLOC'', ''time_on_analysis'', ''KDPI'',
         ''AGE_DON'', ''HGT_CM_CALC'', ''MICRO_FAT_LI_DON'', ''BUN_DON'', ''DIURETICS_N'',
         ''KIL_BACK_TBL_FLUSH'', ''INIT_EPTS'', ''DAYSWAIT_CHRON'', ''NUM_ORG_DISC'', ''END_CPRA'',
         ''PO2_DON'', ''KIP_REASON_CD'', ''time_since_gfr_less_than_20'', ''REGION_IDENTICAL'',
         ''LENGTH_LEFT_LUNG'']
      else if city = ''Boston'' then
        [''PTR_SEQUENCE_NUM'', ''time_on_dialysis'', ''DAYSWAIT_ALLOC'', ''KDPI'', ''PUMP_KI_N'',
         ''KIR_FINAL_FLUSH'', ''KIR_REASON_CD'', ''time_since_gfr_less_than_20'', ''DAYSWAIT_CHRON'',
         ''LENGTH_LEFT_LUNG'', ''AGE_DON'', ''PO2_DON'', ''CREAT_DON'', ''WGT_KG_DON_CALC'',
         ''BMI_DON_CALC'', ''INIT_EPTS'', ''BUN_DON'', ''CREAT_TRR'', ''PRI_PAYMENT_TRR_KI'', ''PH_DON'']
      else if city = ''LA'' then
        [''PTR_SEQUENCE_NUM'', ''DAYSWAIT_ALLOC'', ''time_on_dialysis'', ''KDPI'', ''KIR_REASON_CD'',
         ''CREAT_DON'', ''CREAT_TRR'', ''C1_0'', ''NUM_ORG_DISC'', ''LENGTH_LEFT_LUNG'', ''SEPTAL_WALL'',
         ''CARDARREST_DOWNTM_DURATION'', ''BMI_CALC'', ''DAYSWAIT_CHRON'', ''SHARE_TY_Local'', ''PH_DON'',
         ''HGT_CM_CALC'', ''INIT_EPTS'', ''AGE_DON'', ''MEETS_DBL_KI_CRITERIA'']
      else [])"

definition city_file_map :: "string \<Rightarrow> string option" where
  "city_file_map city =
     (if city = ''Baltimore'' then Some ''data/baltimore_reference.csv''
      else if city = ''LA'' then Some ''data/la_reference.csv''
      else if city = ''Boston'' then Some ''data/boston_reference.csv''
      else None)"

text \<open>The body of the \<^verbatim>\<open>try\<close> block of \<^verbatim>\<open>load_city_data\<close>.\<close>

definition load_city_data_try :: "world \<Rightarrow> string \<Rightarrow> exn + pydict list" where
  "load_city_data_try w city =
     (case city_file_map city of
        None \<Rightarrow> Inr []
      | Some file_path \<Rightarrow>
          if \<not> path_exists w file_path then Inr []
          else read_csv w file_path)"

text \<open>\<^verbatim>\<open>except Exception: return []\<close>.\<close>

definition load_city_data :: "world \<Rightarrow> string \<Rightarrow> pydict list" where
  "load_city_data w city =
     (case load_city_data_try w city of Inl e \<Rightarrow> [] | Inr records \<Rightarrow> records)"

subsection \<open>Matrix assembly (lines 39 to 70)\<close>

text \<open>\<^verbatim>\<open>float(value)\<close>.\<close>

fun py_float :: "world \<Rightarrow> pyval \<Rightarrow> exn + pyfloat" where
  "py_float w PNone = Inl (TypeError ''float() argument must be a string or a real number'')"
| "py_float w (PBool b) = Inr (Fin (if b then 1 else 0))"
| "py_float w (PInt i) = float_of_int i"
| "py_float w (PFloat x) = Inr x"
| "py_float w (PStr s) =
     (case float_of_str w s of
        None \<Rightarrow> Inl (ValueError ''could not convert string to float'')
      | Some x \<Rightarrow> Inr x)"
| "py_float w (PList xs) = Inl (TypeError ''float() argument must be a string or a real number'')"
| "py_float w (PDict d) = Inl (TypeError ''float() argument must be a string or a real number'')"

text \<open>
  One pass of the inner loop: \<^verbatim>\<open>record.get(feature, 0)\<close>, which stands before
  the inner \<^verbatim>\<open>try\<close>, then the conversion under
  \<^verbatim>\<open>except (ValueError, TypeError): value = 0\<close>. Any other exception leaves the
  loop. The integer zero of the \<^verbatim>\<open>except\<close> branch is the double zero once
  \<^verbatim>\<open>np.array\<close> has built the matrix.
\<close>

definition feature_value :: "world \<Rightarrow> pyval \<Rightarrow> string \<Rightarrow> exn + pyfloat" where
  "feature_value w record feature =
     (case py_get record feature (PInt 0) of
        Inl e \<Rightarrow> Inl e
      | Inr v \<Rightarrow>
          (case py_float w v of
             Inr x \<Rightarrow> Inr x
           | Inl (ValueError m) \<Rightarrow> Inr (Fin 0)
           | Inl (TypeError m) \<Rightarrow> Inr (Fin 0)
           | Inl e \<Rightarrow> Inl e))"

fun record_features :: "world \<Rightarrow> pyval \<Rightarrow> string list \<Rightarrow> exn + pyfloat list" where
  "record_features w record [] = Inr []"
| "record_features w record (feature # features) =
     (case feature_value w record feature of
        Inl e \<Rightarrow> Inl e
      | Inr x \<Rightarrow>
          (case record_features w record features of
             Inl e \<Rightarrow> Inl e
           | Inr xs \<Rightarrow> Inr (x # xs)))"

fun dataset_features :: "world \<Rightarrow> string list \<Rightarrow> pydict list \<Rightarrow> exn + matrix" where
  "dataset_features w features [] = Inr []"
| "dataset_features w features (record # records) =
     (case record_features w (PDict record) features of
        Inl e \<Rightarrow> Inl e
      | Inr row \<Rightarrow>
          (case dataset_features w features records of
             Inl e \<Rightarrow> Inl e
           | Inr rows \<Rightarrow> Inr (row # rows)))"

text \<open>\<^verbatim>\<open>X_combined = [target_features] + X\<close>.\<close>

definition combine :: "world \<Rightarrow> string list \<Rightarrow> pyval \<Rightarrow> pydict list \<Rightarrow> exn + matrix" where
  "combine w features target_record city_data =
     (case record_features w target_record features of
        Inl e \<Rightarrow> Inl e
      | Inr target_features \<Rightarrow>
          (case dataset_features w features city_data of
             Inl e \<Rightarrow> Inl e
           | Inr X \<Rightarrow> Inr (target_features # X)))"

text \<open>
  \<^verbatim>\<open>np.nan_to_num\<close>: NaN becomes zero, an infinity the largest double of its sign.
\<close>

definition dbl_max :: rat where
  "dbl_max = (2 ^ 53 - 1) * 2 ^ 971"

fun nan_to_num :: "pyfloat \<Rightarrow> pyfloat" where
  "nan_to_num NaN = Fin 0"
| "nan_to_num PosInf = Fin dbl_max"
| "nan_to_num NegInf = Fin (- dbl_max)"
| "nan_to_num (Fin x) = Fin x"

definition assemble :: "world \<Rightarrow> string list \<Rightarrow> pyval \<Rightarrow> pydict list \<Rightarrow> exn + matrix" where
  "assemble w features target_record city_data =
     (case combine w features target_record city_data of
        Inl e \<Rightarrow> Inl e
      | Inr X_combined \<Rightarrow> Inr (map (map nan_to_num) X_combined))"

subsection \<open>Sampling (lines 72 to 79)\<close>

definition max_points :: nat where
  "max_points = 5000"

text \<open>\<^verbatim>\<open>X_np[indices]\<close>: an index past the last row raises.\<close>

definition take_rows :: "matrix \<Rightarrow> nat list \<Rightarrow> exn + matrix" where
  "take_rows X indices =
     (if list_all (\<lambda>i. i < length X) indices then Inr (map (\<lambda>i. X ! i) indices)
      else Inl (IndexError ''index is out of bounds''))"

definition sample_indices :: "world \<Rightarrow> nat \<Rightarrow> nat list" where
  "sample_indices w n_rows =
     0 # map (\<lambda>i. i + 1) (random_choice w (n_rows - 1) (min (max_points - 1) (n_rows - 1)))"

definition sample_rows :: "world \<Rightarrow> matrix \<Rightarrow> exn + matrix" where
  "sample_rows w X =
     (if max_points < length X then take_rows X (sample_indices w (length X)) else Inr X)"

subsection \<open>Projection (lines 81 to 96)\<close>

definition tsne_settings :: "matrix \<Rightarrow> tsne_params" where
  "tsne_settings X =
     \<lparr>n_components = 2, perplexity = min 30 (int (length X) - 1), random_state = 42,
      n_iter = 1000\<rparr>"

text \<open>\<^verbatim>\<open>tsne_result.tolist()\<close>, as the JSON value of the response.\<close>

definition tolist :: "matrix \<Rightarrow> pyval" where
  "tolist Y = PList (map (\<lambda>point. PList (map PFloat point)) Y)"

definition make_response :: "matrix \<Rightarrow> pyval \<Rightarrow> pyval" where
  "make_response Y record_id = PDict [(''coordinates'', tolist Y), (''recordId'', record_id)]"

text \<open>Lines 39 to 90 in one piece: assembly, sampling and the projection call.\<close>

definition compute_tsne :: "world \<Rightarrow> string list \<Rightarrow> pyval \<Rightarrow> pydict list \<Rightarrow> exn + matrix" where
  "compute_tsne w features target_record city_data =
     (case assemble w features target_record city_data of
        Inl e \<Rightarrow> Inl e
      | Inr X_np \<Rightarrow>
          (case sample_rows w X_np of
             Inl e \<Rightarrow> Inl e
           | Inr X_s \<Rightarrow> fit_transform w (tsne_settings X_s) X_s))"

subsection \<open>The cache key\<close>

fun digits :: "nat \<Rightarrow> string" where
  "digits n =
     (if n < 10 then [char_of (48 + n)] else digits (n div 10) @ [char_of (48 + n mod 10)])"

declare digits.simps [simp del]

definition str_int :: "int \<Rightarrow> string" where
  "str_int i = (if i < 0 then CHR ''-'' # digits (nat (- i)) else digits (nat i))"

text \<open>How the f-string prints the record identifier.\<close>

fun py_str :: "world \<Rightarrow> pyval \<Rightarrow> string" where
  "py_str w (PStr s) = s"
| "py_str w (PInt i) = str_int i"
| "py_str w PNone = ''None''"
| "py_str w (PBool b) = (if b then ''True'' else ''False'')"
| "py_str w v = repr_val w v"

definition cache_key :: "world \<Rightarrow> string \<Rightarrow> pyval \<Rightarrow> string" where
  "cache_key w city record_id = city @ ''_'' @ py_str w record_id"

subsection \<open>The handler\<close>

type_synonym cache = "string \<rightharpoonup> pyval"

type_synonym response = "nat \<times> pyval"

definition error_body :: "string \<Rightarrow> pyval" where
  "error_body msg = PDict [(''error'', PStr msg)]"

text \<open>
  The \<^verbatim>\<open>try\<close> block of \<^verbatim>\<open>generate_tsne\<close>. \<open>request_json\<close> is what
  \<^verbatim>\<open>request.json\<close> gives: the decoded body, or the exception the framework raises for
  a body it cannot decode. The result is the response together with \<^verbatim>\<open>tsne_cache\<close>
  as the call leaves it.
\<close>

definition generate_tsne_try ::
  "world \<Rightarrow> cache \<Rightarrow> string \<Rightarrow> exn + pyval \<Rightarrow> exn + response \<times> cache" where
  "generate_tsne_try w tsne_cache city request_json =
     (case request_json of
        Inl e \<Rightarrow> Inl e
      | Inr data \<Rightarrow>
     (case py_get data ''targetRecord'' PNone of
        Inl e \<Rightarrow> Inl e
      | Inr target_record \<Rightarrow>
     (case py_get target_record ''PTR_SEQUENCE_NUM'' (PStr ''unknown'') of
        Inl e \<Rightarrow> Inl e
      | Inr record_id \<Rightarrow>
     (case tsne_cache (cache_key w city record_id) of
        Some stored \<Rightarrow> Inr ((200, stored), tsne_cache)
      | None \<Rightarrow>
          (let features = get_important_features city;
               city_data = load_city_data w city
           in if city_data = [] then
                Inr ((404, error_body (''No data available for '' @ city)), tsne_cache)
              else
                (case compute_tsne w features target_record city_data of
                   Inl e \<Rightarrow> Inl e
                 | Inr tsne_result \<Rightarrow>
                     (let response = make_response tsne_result record_id
                      in Inr ((200, response),
                              tsne_cache(cache_key w city record_id \<mapsto> response)))))))))"

text \<open>\<^verbatim>\<open>except Exception as e: return jsonify({'error': str(e)}), 500\<close>.\<close>

definition generate_tsne :: "world \<Rightarrow> cache \<Rightarrow> string \<Rightarrow> exn + pyval \<Rightarrow> response \<times> cache" where
  "generate_tsne w tsne_cache city request_json =
     (case generate_tsne_try w tsne_cache city request_json of
        Inl e \<Rightarrow> ((500, error_body (str_exn e)), tsne_cache)
      | Inr result \<Rightarrow> result)"

text \<open>
  A run of the service: requests handled one after the other, each in the world of its
  moment (the files, the random draw), the cache carried from one to the next.
\<close>

type_synonym request = "world \<times> string \<times> (exn + pyval)"

fun serve :: "cache \<Rightarrow> request list \<Rightarrow> cache" where
  "serve tsne_cache [] = tsne_cache"
| "serve tsne_cache ((w, city, request_json) # later) =
     serve (snd (generate_tsne w tsne_cache city request_json)) later"

section \<open>The reference-data service\<close>

definition file_mapping :: "string \<Rightarrow> string option" where
  "file_mapping city =
     (if city = ''Baltimore'' then Some ''baltimore_reference.csv''
      else if city = ''Boston'' then Some ''boston_reference.csv''
      else if city = ''LA'' then Some ''la_reference.csv''
      else None)"

text \<open>\<^verbatim>\<open>a in b\<close> on strings: \<open>a\<close> occurs in \<open>b\<close> as a run of characters.\<close>

fun contains :: "string \<Rightarrow> string \<Rightarrow> bool" where
  "contains a [] = (a = [])"
| "contains a (c # cs) = (if prefix a (c # cs) then True else contains a cs)"

definition endswith :: "string \<Rightarrow> string \<Rightarrow> bool" where
  "endswith s ending = suffix ending s"

text \<open>
  The test of line 37:
  \<^verbatim>\<open>city.lower() in f.lower() and f.lower().endswith('.csv')\<close>.
\<close>

definition matches_city :: "world \<Rightarrow> string \<Rightarrow> string \<Rightarrow> bool" where
  "matches_city w city f =
     (contains (str_lower w city) (str_lower w f) \<and> endswith (str_lower w f) ''.csv'')"

text \<open>
  Lines 32 to 40: the mapped name when the directory holds it, otherwise the first file
  of the listing that matches the city; \<open>file_name\<close> keeps the mapped name when the
  search finds nothing.
\<close>

definition resolve_file_name :: "world \<Rightarrow> string \<Rightarrow> string list \<Rightarrow> string option" where
  "resolve_file_name w city files =
     (case file_mapping city of
        None \<Rightarrow> find (matches_city w city) files
      | Some file_name \<Rightarrow>
          if List.member files file_name then Some file_name
          else (case find (matches_city w city) files of
                  None \<Rightarrow> Some file_name
                | Some f \<Rightarrow> Some f))"

definition get_reference_data :: "world \<Rightarrow> string \<Rightarrow> response" where
  "get_reference_data w city =
     (case listdir w of
        Inl e \<Rightarrow> (500, error_body (''Error listing files: '' @ str_exn e))
      | Inr files \<Rightarrow>
          (case resolve_file_name w city files of
             None \<Rightarrow> (404, error_body (''Reference data file not found for '' @ city))
           | Some file_name \<Rightarrow>
               (case read_csv w (data_dir w @ ''/'' @ file_name) of
                  Inl e \<Rightarrow> (500, error_body (''Failed to read reference data: '' @ str_exn e))
                | Inr records \<Rightarrow> (200, PList (map PDict records)))))"

section \<open>Contracts of the library routines and example worlds\<close>

text \<open>
  What \<^verbatim>\<open>np.random.choice(n, k, replace=False)\<close> promises for \<open>k \<le> n\<close>:
  \<open>k\<close> pairwise different numbers below \<open>n\<close>.
\<close>

definition choice_ok :: "nat \<Rightarrow> nat \<Rightarrow> nat list \<Rightarrow> bool" where
  "choice_ok n k draw = (length draw = k \<and> distinct draw \<and> list_all (\<lambda>i. i < n) draw)"

definition choice_contract :: "world \<Rightarrow> bool" where
  "choice_contract w = (\<forall>n k. k \<le> n \<longrightarrow> choice_ok n k (random_choice w n k))"

text \<open>
  A world for running the handlers on concrete requests: every dataset file exists and
  holds one record, the draw takes the first \<open>k\<close> numbers, and the projection puts
  every row at the origin of the space of \<open>n_components\<close> dimensions.
\<close>

text \<open>What \<^verbatim>\<open>str.lower\<close> does on ASCII text, for the example worlds.\<close>

definition ascii_lower_char :: "char \<Rightarrow> char" where
  "ascii_lower_char c =
     (let n = (of_char c :: nat) in if 65 \<le> n \<and> n \<le> 90 then char_of (n + 32) else c)"

definition ascii_lower :: "string \<Rightarrow> string" where
  "ascii_lower s = map ascii_lower_char s"

definition example_world :: world where
  "example_world =
     \<lparr>float_of_str = (\<lambda>s. None), repr_val = (\<lambda>v. ''?''), str_lower = ascii_lower,
      path_exists = (\<lambda>p. True),
      read_csv = (\<lambda>p. Inr [[(''KDPI'', PInt 1)]]), data_dir = ''data'',
      listdir = Inr [], random_choice = (\<lambda>n k. [0..<k]),
      fit_transform = (\<lambda>p X. Inr (map (\<lambda>row. replicate (n_components p) (Fin 0)) X))\<rparr>"

text \<open>The same world with every dataset file unreadable.\<close>

definition broken_world :: world where
  "broken_world = example_world\<lparr>read_csv := (\<lambda>p. Inl (OtherError ''Error tokenizing data''))\<rparr>"

text \<open>
  Values whose conversion to a double cannot overflow: every integer is below
  \<open>2 ^ 1023\<close> in magnitude (a JSON number of ordinary size, a pandas \<^verbatim>\<open>int64\<close>).
\<close>

definition convertible :: "pyval \<Rightarrow> bool" where
  "convertible v = (case v of PInt i \<Rightarrow> \<bar>i\<bar> < 2 ^ 1023 | _ \<Rightarrow> True)"

definition convertible_record :: "pydict \<Rightarrow> bool" where
  "convertible_record d = list_all (\<lambda>kv. convertible (snd kv)) d"



text \<open>
  Worlds for the reference-data service: a data directory that holds the Boston file and
  a text file, where only the Boston file can be read; and one whose data directory
  cannot be listed.
\<close>

definition boston_only_world :: world where
  "boston_only_world =
     example_world
       \<lparr>read_csv := (\<lambda>p. if p = ''data/boston_reference.csv'' then Inr [[(''KDPI'', PInt 1)]]
                         else Inl (OtherError ''No such file or directory'')),
        listdir := Inr [''boston_reference.csv'', ''notes.txt'']\<rparr>"

definition unlisted_world :: world where
  "unlisted_world = example_world\<lparr>listdir := Inl (OtherError ''No such file or directory'')\<rparr>"



section \<open>Properties\<close>

subsection \<open>Sampling\<close>

lemma take_rows_ok:
  "list_all (\<lambda>i. i < length X) indices \<Longrightarrow> take_rows X indices = Inr (map (\<lambda>i. X ! i) indices)"
  by (simp add: take_rows_def)

lemma sample_rows_small: "length X \<le> max_points \<Longrightarrow> sample_rows w X = Inr X"
  by (simp add: sample_rows_def)

lemma sample_rows_large:
  assumes big: "max_points < length X"
    and ok: "choice_ok (length X - 1) (max_points - 1) (random_choice w (length X - 1) (max_points - 1))"
  shows "sample_rows w X =
           Inr (X ! 0 # map (\<lambda>i. X ! (i + 1)) (random_choice w (length X - 1) (max_points - 1)))"
proof -
  let ?draw = "random_choice w (length X - 1) (max_points - 1)"
  have m: "min (max_points - 1) (length X - 1) = max_points - 1"
    using big by simp
  have idx: "sample_indices w (length X) = 0 # map (\<lambda>i. i + 1) ?draw"
    by (simp only: sample_indices_def m)
  have "list_all (\<lambda>i. i < length X - 1) ?draw"
    using ok by (simp add: choice_ok_def)
  then have "list_all (\<lambda>i. i < length X) (0 # map (\<lambda>i. i + 1) ?draw)"
    using big by (auto simp: list_all_iff)
  then have "take_rows X (sample_indices w (length X)) =
               Inr (map (\<lambda>i. X ! i) (0 # map (\<lambda>i. i + 1) ?draw))"
    unfolding idx by (rule take_rows_ok)
  then show ?thesis
    using big by (simp add: sample_rows_def o_def)
qed

lemma example_world_choice: "choice_contract example_world"
  by (simp add: choice_contract_def choice_ok_def example_world_def list_all_iff)

text \<open>
  C2. With the draw keeping the promise of \<^verbatim>\<open>np.random.choice\<close>: a matrix of more
  than 5000 rows becomes row 0 followed by the rows \<open>i + 1\<close> for the 4999 pairwise
  different numbers \<open>i\<close> drawn below \<open>length X - 1\<close>, so the indices taken lie in
  \<open>1 .. length X - 1\<close>; a matrix of at most 5000 rows is left as it is. In both cases
  the step yields \<open>min 5000 (length X)\<close> rows with row 0 in front. That the draw is
  uniform is the library's doing and is not part of the model.
\<close>

theorem sampling_contract:
  assumes lib: "choice_contract w"
  shows "(if max_points < length X then
            sample_rows w X =
              Inr (X ! 0 # map (\<lambda>i. X ! (i + 1)) (random_choice w (length X - 1) (max_points - 1))) \<and>
            length (random_choice w (length X - 1) (max_points - 1)) = max_points - 1 \<and>
            distinct (random_choice w (length X - 1) (max_points - 1)) \<and>
            list_all (\<lambda>i. 1 \<le> i + 1 \<and> i + 1 \<le> length X - 1)
              (random_choice w (length X - 1) (max_points - 1))
          else sample_rows w X = Inr X) \<and>
         (\<exists>Y. sample_rows w X = Inr Y \<and> length Y = min max_points (length X) \<and>
              (X = [] \<or> Y ! 0 = X ! 0)) \<and>
         max_points = 5000"
proof (cases "max_points < length X")
  case True
  let ?draw = "random_choice w (length X - 1) (max_points - 1)"
  have "max_points - 1 \<le> length X - 1"
    using True by simp
  then have ok: "choice_ok (length X - 1) (max_points - 1) ?draw"
    using lib by (simp add: choice_contract_def)
  have s: "sample_rows w X = Inr (X ! 0 # map (\<lambda>i. X ! (i + 1)) ?draw)"
    using True ok by (rule sample_rows_large)
  have len: "length ?draw = max_points - 1" and dist: "distinct ?draw"
    and rng: "list_all (\<lambda>i. i < length X - 1) ?draw"
    using ok by (simp_all add: choice_ok_def)
  have rng': "list_all (\<lambda>i. 1 \<le> i + 1 \<and> i + 1 \<le> length X - 1) ?draw"
    using rng by (auto simp: list_all_iff)
  have "length (X ! 0 # map (\<lambda>i. X ! (i + 1)) ?draw) = min max_points (length X)"
    using True len by (simp add: max_points_def)
  then show ?thesis
    using True s len dist rng' by (simp add: max_points_def)
next
  case False
  then have "sample_rows w X = Inr X"
    by (simp add: sample_rows_small)
  then show ?thesis
    using False by (simp add: max_points_def)
qed

theorem sampling_contract_witness:
  "choice_contract example_world \<and>
   (\<exists>Y. sample_rows example_world (replicate 5001 [Fin 0]) = Inr Y \<and> length Y = 5000) \<and>
   sample_rows example_world (replicate 3 [Fin 0]) = Inr (replicate 3 [Fin 0])"
proof -
  have c: "choice_contract example_world"
    by (rule example_world_choice)
  have big: "max_points < length (replicate 5001 [Fin (0::rat)])"
    by (simp add: max_points_def)
  have small: "\<not> max_points < length (replicate 3 [Fin (0::rat)])"
    by (simp add: max_points_def)
  have m: "min max_points (length (replicate 5001 [Fin (0::rat)])) = 5000"
    by (simp add: max_points_def)
  from sampling_contract [OF c, of "replicate 5001 [Fin 0]"]
  have a: "\<exists>Y. sample_rows example_world (replicate 5001 [Fin 0]) = Inr Y \<and> length Y = 5000"
    unfolding m by blast
  from sampling_contract [OF c, of "replicate 3 [Fin 0]"] small
  have b: "sample_rows example_world (replicate 3 [Fin 0]) = Inr (replicate 3 [Fin 0])"
    by (simp only: if_False)
  show ?thesis
    using a b c by blast
qed

subsection \<open>Integers as doubles\<close>

lemma bit_length_le: "a < 2 ^ k \<Longrightarrow> bit_length a \<le> k"
proof (induction k arbitrary: a)
  case 0
  then show ?case by (simp add: bit_length.simps)
next
  case (Suc k)
  have "a div 2 < 2 ^ k"
    using Suc.prems by simp
  then have "bit_length (a div 2) \<le> k"
    by (rule Suc.IH)
  then show ?case
    by (subst bit_length.simps) simp
qed

lemma bit_length_gt: "2 ^ k \<le> a \<Longrightarrow> k < bit_length a"
proof (induction k arbitrary: a)
  case 0
  then show ?case by (subst bit_length.simps) simp
next
  case (Suc k)
  have "2 ^ k \<le> a div 2"
    using Suc.prems by simp
  then have "k < bit_length (a div 2)"
    by (rule Suc.IH)
  moreover have "0 < (2::nat) ^ Suc k"
    by simp
  then have "a \<noteq> 0"
    using Suc.prems by linarith
  ultimately show ?case
    by (subst bit_length.simps) simp
qed

lemma bit_length_lower: "a \<noteq> 0 \<Longrightarrow> 2 ^ (bit_length a - 1) \<le> a"
proof (rule ccontr)
  assume nz: "a \<noteq> 0" and "\<not> 2 ^ (bit_length a - 1) \<le> a"
  then have "bit_length a \<le> bit_length a - 1"
    by (simp add: bit_length_le)
  moreover have "0 < bit_length a"
    using nz by (subst bit_length.simps) simp
  ultimately show False by simp
qed

lemma round_to_53_small: "a < 2 ^ 53 \<Longrightarrow> round_to_53 a = a"
  using bit_length_le [of a 53] by (simp add: round_to_53_def)

lemma round_to_53_le: "round_to_53 a \<le> 2 * a"
proof (cases "bit_length a \<le> 53")
  case True
  then show ?thesis by (simp add: round_to_53_def)
next
  case False
  define sh where "sh = bit_length a - 53"
  define q where "q = a div 2 ^ sh"
  have nz: "a \<noteq> 0"
    using False by (subst (asm) bit_length.simps) (simp split: if_splits)
  have "sh \<le> bit_length a - 1"
    by (simp add: sh_def)
  then have "(2::nat) ^ sh \<le> 2 ^ (bit_length a - 1)"
    by (rule power_increasing) simp
  then have p: "2 ^ sh \<le> a"
    using bit_length_lower [OF nz] by (rule order_trans)
  have "q * 2 ^ sh \<le> a"
    by (simp add: q_def)
  then have "(q + 1) * 2 ^ sh \<le> 2 * a"
    using p by (simp add: algebra_simps)
  moreover have "round_to_53 a \<le> (q + 1) * 2 ^ sh"
    using False by (simp add: round_to_53_def Let_def sh_def q_def)
  ultimately show ?thesis by simp
qed

lemma round_to_53_ge:
  assumes "2 ^ 1024 \<le> a"
  shows "2 ^ 1024 \<le> round_to_53 a"
proof -
  define n where "n = bit_length a"
  define sh where "sh = n - 53"
  define q where "q = a div 2 ^ sh"
  have n: "1024 < n"
    unfolding n_def using assms by (rule bit_length_gt)
  have nz: "a \<noteq> 0"
    using assms by auto
  have low: "2 ^ (n - 1) \<le> a"
    unfolding n_def using nz by (rule bit_length_lower)
  have "n - 1 = 52 + sh"
    using n by (simp add: sh_def)
  then have split: "(2::nat) ^ (n - 1) = 2 ^ 52 * 2 ^ sh"
    by (simp only: power_add)
  have "(2 ^ 52 * 2 ^ sh) div 2 ^ sh \<le> a div 2 ^ sh"
    using low unfolding split by (rule div_le_mono)
  then have "2 ^ 52 \<le> q"
    by (simp add: q_def)
  then have "2 ^ 52 * 2 ^ sh \<le> q * 2 ^ sh"
    by (rule mult_le_mono1)
  then have "2 ^ (n - 1) \<le> q * 2 ^ sh"
    by (simp only: split)
  moreover have "(2::nat) ^ 1024 \<le> 2 ^ (n - 1)"
    using n by (intro power_increasing) simp_all
  moreover have "q * 2 ^ sh \<le> round_to_53 a"
    using n by (simp add: round_to_53_def Let_def sh_def q_def flip: n_def)
  ultimately show ?thesis by linarith
qed

lemma float_of_int_small:
  "\<bar>i\<bar> < 2 ^ 53 \<Longrightarrow> float_of_int i = Inr (Fin (of_int i))"
proof -
  assume a: "\<bar>i\<bar> < 2 ^ 53"
  then have "nat \<bar>i\<bar> < 2 ^ 53"
    by (simp add: nat_less_iff)
  then have r: "round_to_53 (nat \<bar>i\<bar>) = nat \<bar>i\<bar>"
    by (rule round_to_53_small)
  have s: "sgn i * int (nat \<bar>i\<bar>) = i"
    by (simp add: mult_sgn_abs)
  have "nat \<bar>i\<bar> < 2 ^ 1024"
    using \<open>nat \<bar>i\<bar> < 2 ^ 53\<close> by (rule less_le_trans) simp
  then have "\<not> 2 ^ 1024 \<le> nat \<bar>i\<bar>"
    by (simp only: not_le)
  then show ?thesis
    unfolding float_of_int_def Let_def r s by (simp only: if_False)
qed

lemma float_of_int_returns:
  assumes "\<bar>i\<bar> < 2 ^ 1023"
  shows "\<exists>x. float_of_int i = Inr (Fin x)"
proof -
  have "nat \<bar>i\<bar> < 2 ^ 1023"
    using assms by (simp add: nat_less_iff)
  then have "2 * nat \<bar>i\<bar> < 2 ^ 1024"
    by simp
  then have "round_to_53 (nat \<bar>i\<bar>) < 2 ^ 1024"
    using round_to_53_le [of "nat \<bar>i\<bar>"] by (rule le_less_trans [rotated])
  then show ?thesis
    by (simp add: float_of_int_def Let_def)
qed

lemma float_of_int_overflow:
  assumes "2 ^ 1024 \<le> \<bar>i\<bar>"
  shows "float_of_int i = Inl (OverflowError ''int too large to convert to float'')"
proof -
  have "2 ^ 1024 \<le> nat \<bar>i\<bar>"
    using assms by (simp add: le_nat_iff)
  then have "2 ^ 1024 \<le> round_to_53 (nat \<bar>i\<bar>)"
    by (rule round_to_53_ge)
  then show ?thesis
    by (simp add: float_of_int_def Let_def)
qed

subsection \<open>The handler, case by case\<close>

lemma generate_tsne_well_formed:
  assumes "map_of body ''targetRecord'' = Some (PDict t)"
  shows "generate_tsne w c city (Inr (PDict body)) =
     (case c (cache_key w city (dict_get t ''PTR_SEQUENCE_NUM'' (PStr ''unknown''))) of
        Some stored \<Rightarrow> ((200, stored), c)
      | None \<Rightarrow>
          if load_city_data w city = [] then
            ((404, error_body (''No data available for '' @ city)), c)
          else
            (case compute_tsne w (get_important_features city) (PDict t) (load_city_data w city) of
               Inl e \<Rightarrow> ((500, error_body (str_exn e)), c)
             | Inr Y \<Rightarrow>
                 ((200, make_response Y (dict_get t ''PTR_SEQUENCE_NUM'' (PStr ''unknown''))),
                  c(cache_key w city (dict_get t ''PTR_SEQUENCE_NUM'' (PStr ''unknown'')) \<mapsto>
                      make_response Y (dict_get t ''PTR_SEQUENCE_NUM'' (PStr ''unknown''))))))"
  using assms
  by (simp add: generate_tsne_def generate_tsne_try_def dict_get_def Let_def
      split: option.splits sum.splits)

lemma generate_tsne_cases:
  "(\<exists>e. generate_tsne w c city rq = ((500, error_body (str_exn e)), c)) \<or>
   generate_tsne w c city rq = ((404, error_body (''No data available for '' @ city)), c) \<or>
   (\<exists>rid stored. c (cache_key w city rid) = Some stored \<and>
      generate_tsne w c city rq = ((200, stored), c)) \<or>
   (\<exists>t rid Y. c (cache_key w city rid) = None \<and>
      compute_tsne w (get_important_features city) t (load_city_data w city) = Inr Y \<and>
      generate_tsne w c city rq =
        ((200, make_response Y rid), c(cache_key w city rid \<mapsto> make_response Y rid)))"
  apply (simp add: generate_tsne_def generate_tsne_try_def Let_def
      split: option.splits sum.splits)
  apply blast
  done

lemma generate_tsne_keeps_entries:
  assumes "c k = Some r"
  shows "snd (generate_tsne w c city rq) k = Some r"
  using generate_tsne_cases [of w c city rq] assms
  by (elim disjE exE conjE) (auto simp: fun_upd_def)

lemma serve_keeps_entries:
  "c k = Some r \<Longrightarrow> serve c later k = Some r"
proof (induction later arbitrary: c)
  case Nil
  then show ?case by simp
next
  case (Cons rq later)
  obtain w city j where rq: "rq = (w, city, j)"
    by (cases rq) auto
  have "snd (generate_tsne w c city j) k = Some r"
    using Cons.prems by (rule generate_tsne_keeps_entries)
  then show ?case
    unfolding rq by (simp add: Cons.IH)
qed

lemma missing_target_record:
  assumes "map_of body ''targetRecord'' = None \<or> map_of body ''targetRecord'' = Some PNone"
  shows "generate_tsne w c city (Inr (PDict body)) =
           ((500, error_body ([CHR 0x27] @ ''NoneType'' @ [CHR 0x27] @ '' object has no attribute '' @
                                [CHR 0x27] @ ''get'' @ [CHR 0x27])), c)"
  using assms
  by (auto simp: generate_tsne_def generate_tsne_try_def dict_get_def)

text \<open>
  C10. A body that is a JSON object without \<open>targetRecord\<close>, or with a null one, is
  answered 500 with an error body: \<^verbatim>\<open>None.get\<close> raises and the handler's
  \<^verbatim>\<open>except\<close> catches it. Every answer has status 200, 404 or 500; an answer other
  than 200 carries an error body and leaves the cache as it was; and the cache changes
  only when a request that found no entry under its key computed a projection and was
  answered 200, by exactly the entry of that answer.
\<close>

theorem errors_leave_cache:
  "(map_of body ''targetRecord'' = None \<or> map_of body ''targetRecord'' = Some PNone \<longrightarrow>
      generate_tsne w c city (Inr (PDict body)) =
        ((500, error_body ([CHR 0x27] @ ''NoneType'' @ [CHR 0x27] @ '' object has no attribute '' @
                             [CHR 0x27] @ ''get'' @ [CHR 0x27])), c)) \<and>
   fst (fst (generate_tsne w c city rq)) \<in> {200, 404, 500} \<and>
   (fst (fst (generate_tsne w c city rq)) \<noteq> 200 \<longrightarrow>
      snd (generate_tsne w c city rq) = c \<and>
      (\<exists>msg. snd (fst (generate_tsne w c city rq)) = error_body msg)) \<and>
   (snd (generate_tsne w c city rq) \<noteq> c \<longrightarrow>
      (\<exists>t rid Y. c (cache_key w city rid) = None \<and>
         compute_tsne w (get_important_features city) t (load_city_data w city) = Inr Y \<and>
         generate_tsne w c city rq =
           ((200, make_response Y rid), c(cache_key w city rid \<mapsto> make_response Y rid))))"
proof -
  have a: "map_of body ''targetRecord'' = None \<or> map_of body ''targetRecord'' = Some PNone \<longrightarrow>
      generate_tsne w c city (Inr (PDict body)) =
        ((500, error_body ([CHR 0x27] @ ''NoneType'' @ [CHR 0x27] @ '' object has no attribute '' @
                             [CHR 0x27] @ ''get'' @ [CHR 0x27])), c)"
    using missing_target_record by blast
  have b: "fst (fst (generate_tsne w c city rq)) \<in> {200, 404, 500}"
    using generate_tsne_cases [of w c city rq] by auto
  have d: "fst (fst (generate_tsne w c city rq)) \<noteq> 200 \<longrightarrow>
      snd (generate_tsne w c city rq) = c \<and>
      (\<exists>msg. snd (fst (generate_tsne w c city rq)) = error_body msg)"
    using generate_tsne_cases [of w c city rq] by (elim disjE exE conjE) auto
  have e: "snd (generate_tsne w c city rq) \<noteq> c \<longrightarrow>
      (\<exists>t rid Y. c (cache_key w city rid) = None \<and>
         compute_tsne w (get_important_features city) t (load_city_data w city) = Inr Y \<and>
         generate_tsne w c city rq =
           ((200, make_response Y rid), c(cache_key w city rid \<mapsto> make_response Y rid)))"
    using generate_tsne_cases [of w c city rq] by (elim disjE exE conjE) auto
  show ?thesis
    using a b d e by blast
qed

theorem errors_leave_cache_witness:
  "generate_tsne example_world Map.empty ''Baltimore'' (Inr (PDict [])) =
     ((500, error_body ([CHR 0x27] @ ''NoneType'' @ [CHR 0x27] @ '' object has no attribute '' @
                          [CHR 0x27] @ ''get'' @ [CHR 0x27])), Map.empty) \<and>
   generate_tsne example_world Map.empty ''Baltimore'' (Inr (PDict [(''targetRecord'', PNone)])) =
     ((500, error_body ([CHR 0x27] @ ''NoneType'' @ [CHR 0x27] @ '' object has no attribute '' @
                          [CHR 0x27] @ ''get'' @ [CHR 0x27])), Map.empty) \<and>
   snd (generate_tsne example_world Map.empty ''Atlantis''
          (Inr (PDict [(''targetRecord'', PDict [])]))) = Map.empty"
proof -
  have n: "fst (fst (generate_tsne example_world Map.empty ''Atlantis''
          (Inr (PDict [(''targetRecord'', PDict [])])))) \<noteq> 200"
    by (simp add: generate_tsne_well_formed load_city_data_def load_city_data_try_def
        city_file_map_def)
  show ?thesis
    using n
      errors_leave_cache [where body = "[]" and w = example_world and c = Map.empty
        and city = "''Baltimore''"]
      errors_leave_cache [where body = "[(''targetRecord'', PNone)]" and w = example_world
        and c = Map.empty and city = "''Baltimore''"]
      errors_leave_cache [where w = example_world and c = Map.empty and city = "''Atlantis''"
        and rq = "Inr (PDict [(''targetRecord'', PDict [])])"]
    by simp
qed

lemma load_city_data_empty:
  assumes "city_file_map city = None \<or>
           (\<exists>p. city_file_map city = Some p \<and> (\<not> path_exists w p \<or> (\<exists>e. read_csv w p = Inl e)))"
  shows "load_city_data w city = []"
  using assms by (auto simp: load_city_data_def load_city_data_try_def)

lemma empty_dataset_404:
  assumes "load_city_data w city = []"
    and "map_of body ''targetRecord'' = Some (PDict t)"
    and "c (cache_key w city (dict_get t ''PTR_SEQUENCE_NUM'' (PStr ''unknown''))) = None"
  shows "generate_tsne w c city (Inr (PDict body)) =
           ((404, error_body (''No data available for '' @ city)), c)"
  using assms by (simp add: generate_tsne_well_formed)

text \<open>
  C8. \<^verbatim>\<open>load_city_data\<close> returns the empty list for a city without a mapped file,
  for a mapped file that does not exist and for a file whose reading or parsing raises;
  no exception leaves it. A request that reaches the loading step (a target record that
  is an object, no cache entry under its key) is then answered 404 with
  \<open>No data available for <city>\<close>, and the cache is unchanged.
\<close>

theorem load_failure_is_404:
  assumes "city_file_map city = None \<or>
           (\<exists>p. city_file_map city = Some p \<and> (\<not> path_exists w p \<or> (\<exists>e. read_csv w p = Inl e)))"
  shows "load_city_data w city = [] \<and>
         (\<forall>body t c. map_of body ''targetRecord'' = Some (PDict t) \<and>
            c (cache_key w city (dict_get t ''PTR_SEQUENCE_NUM'' (PStr ''unknown''))) = None \<longrightarrow>
            generate_tsne w c city (Inr (PDict body)) =
              ((404, error_body (''No data available for '' @ city)), c))"
  using load_city_data_empty [OF assms] empty_dataset_404 by blast

theorem load_failure_is_404_witness:
  "load_city_data broken_world ''Boston'' = [] \<and>
   generate_tsne broken_world Map.empty ''Boston'' (Inr (PDict [(''targetRecord'', PDict [])])) =
     ((404, error_body ''No data available for Boston''), Map.empty)"
proof -
  have h: "city_file_map ''Boston'' = None \<or>
           (\<exists>p. city_file_map ''Boston'' = Some p \<and>
              (\<not> path_exists broken_world p \<or> (\<exists>e. read_csv broken_world p = Inl e)))"
    by (simp add: city_file_map_def broken_world_def)
  show ?thesis
    using load_failure_is_404 [OF h] by simp
qed

subsection \<open>Matrix assembly\<close>

lemma py_float_convertible:
  assumes "convertible v"
  shows "(\<exists>x. py_float w v = Inr x) \<or> (\<exists>m. py_float w v = Inl (ValueError m)) \<or>
         (\<exists>m. py_float w v = Inl (TypeError m))"
proof (cases v)
  case (PInt i)
  then have "\<bar>i\<bar> < 2 ^ 1023"
    using assms by (simp add: convertible_def)
  then obtain x where "float_of_int i = Inr (Fin x)"
    using float_of_int_returns by blast
  then show ?thesis
    using PInt by simp
next
  case (PStr s)
  then show ?thesis
    by (cases "float_of_str w s") simp_all
qed simp_all

lemma dict_get_convertible:
  assumes "convertible_record d" and "convertible dflt"
  shows "convertible (dict_get d k dflt)"
proof (cases "map_of d k")
  case None
  then show ?thesis
    using assms(2) by (simp add: dict_get_def)
next
  case (Some v)
  then have "(k, v) \<in> set d"
    by (rule map_of_SomeD)
  then have "convertible v"
    using assms(1) by (auto simp: convertible_record_def list_all_iff)
  then show ?thesis
    using Some by (simp add: dict_get_def)
qed

lemma feature_value_returns:
  assumes "convertible_record d"
  shows "\<exists>x. feature_value w (PDict d) f = Inr x"
proof -
  have "convertible (PInt 0)"
    by (simp add: convertible_def)
  then have "convertible (dict_get d f (PInt 0))"
    using assms by (simp add: dict_get_convertible)
  then show ?thesis
    using py_float_convertible [of "dict_get d f (PInt 0)" w]
    by (auto simp: feature_value_def)
qed

lemma record_features_returns:
  assumes "convertible_record d"
  shows "\<exists>xs. record_features w (PDict d) fs = Inr xs"
proof (induction fs)
  case Nil
  then show ?case by simp
next
  case (Cons f fs)
  obtain x where "feature_value w (PDict d) f = Inr x"
    using feature_value_returns [OF assms] by blast
  then show ?case
    using Cons.IH by auto
qed

lemma record_features_length:
  "record_features w r fs = Inr xs \<Longrightarrow> length xs = length fs"
  by (induction fs arbitrary: xs) (auto split: sum.splits)

lemma dataset_features_returns:
  assumes "list_all convertible_record rows"
  shows "\<exists>X. dataset_features w fs rows = Inr X"
  using assms
proof (induction rows)
  case Nil
  then show ?case by simp
next
  case (Cons r rows)
  obtain xs where "record_features w (PDict r) fs = Inr xs"
    using Cons.prems record_features_returns [of r w fs] by auto
  then show ?case
    using Cons by auto
qed

lemma dataset_features_length:
  "dataset_features w fs rows = Inr X \<Longrightarrow>
     length X = length rows \<and> list_all (\<lambda>row. length row = length fs) X"
proof (induction rows arbitrary: X)
  case Nil
  then show ?case by simp
next
  case (Cons r rows)
  then show ?case
    by (auto split: sum.splits dest: record_features_length)
qed

lemma nan_to_num_finite: "\<exists>q. nan_to_num x = Fin q"
  by (cases x) simp_all


lemma assemble_shape:
  assumes "assemble w fs t rows = Inr X"
  shows "\<exists>tf rest. record_features w t fs = Inr tf \<and> dataset_features w fs rows = Inr rest \<and>
           combine w fs t rows = Inr (tf # rest) \<and>
           X = map nan_to_num tf # map (map nan_to_num) rest"
  using assms by (auto simp: assemble_def combine_def split: sum.splits)

lemma assemble_dimensions:
  assumes "assemble w fs t rows = Inr X"
  shows "length X = Suc (length rows) \<and>
         list_all (\<lambda>row. length row = length fs \<and> list_all (\<lambda>x. \<exists>q. x = Fin q) row) X"
proof -
  obtain tf rest where tf: "record_features w t fs = Inr tf"
    and rest: "dataset_features w fs rows = Inr rest"
    and X: "X = map nan_to_num tf # map (map nan_to_num) rest"
    using assemble_shape [OF assms] by blast
  have l1: "length tf = length fs"
    using tf by (rule record_features_length)
  have l2: "length rest = length rows" "list_all (\<lambda>row. length row = length fs) rest"
    using dataset_features_length [OF rest] by simp_all
  show ?thesis
    using l1 l2 nan_to_num_finite by (auto simp: X list_all_iff)
qed

lemma assemble_returns:
  assumes "convertible_record t" and "list_all convertible_record rows"
  shows "\<exists>X. assemble w fs (PDict t) rows = Inr X"
proof -
  obtain tf where "record_features w (PDict t) fs = Inr tf"
    using record_features_returns [OF assms(1)] by blast
  moreover obtain rest where "dataset_features w fs rows = Inr rest"
    using dataset_features_returns [OF assms(2)] by blast
  ultimately show ?thesis
    by (simp add: assemble_def combine_def)
qed

lemma example_world_compute:
  assumes "convertible_record t"
  shows "compute_tsne example_world fs (PDict t) [[(''KDPI'', PInt 1)]] =
           Inr [[Fin 0, Fin 0], [Fin 0, Fin 0]]"
proof -
  have "list_all convertible_record [[(''KDPI'', PInt 1)]]"
    by (simp add: convertible_record_def convertible_def)
  then obtain X where X: "assemble example_world fs (PDict t) [[(''KDPI'', PInt 1)]] = Inr X"
    using assemble_returns [OF assms] by blast
  have len: "length X = 2"
    using assemble_dimensions [OF X] by simp
  then obtain a b where ab: "X = [a, b]"
    by (cases X; cases "tl X") auto
  have s: "sample_rows example_world X = Inr X"
    using len by (simp add: sample_rows_small max_points_def)
  show ?thesis
    by (simp add: compute_tsne_def X s)
      (simp add: ab example_world_def tsne_settings_def numeral_2_eq_2)
qed

lemma example_world_load:
  "city = ''Baltimore'' \<or> city = ''Boston'' \<or> city = ''LA'' \<Longrightarrow>
     load_city_data example_world city = [[(''KDPI'', PInt 1)]]"
  by (auto simp: load_city_data_def load_city_data_try_def city_file_map_def example_world_def)

subsection \<open>Integers beyond the doubles, and unconfigured cities\<close>

lemma record_features_overflow:
  assumes "map_of t f = Some (PInt i)" and "2 ^ 1024 \<le> \<bar>i\<bar>"
  shows "record_features w (PDict t) (f # fs) =
           Inl (OverflowError ''int too large to convert to float'')"
  using assms by (simp add: feature_value_def dict_get_def float_of_int_overflow)

lemma huge_sequence_number:
  assumes big: "2 ^ 1024 \<le> \<bar>i\<bar>"
  shows "assemble example_world (get_important_features ''Baltimore'')
           (PDict [(''PTR_SEQUENCE_NUM'', PInt i)]) [[(''KDPI'', PInt 1)]] =
           Inl (OverflowError ''int too large to convert to float'')"
    and "generate_tsne example_world Map.empty ''Baltimore''
           (Inr (PDict [(''targetRecord'', PDict [(''PTR_SEQUENCE_NUM'', PInt i)])])) =
           ((500, error_body ''int too large to convert to float''), Map.empty)"
proof -
  have f: "get_important_features ''Baltimore'' =
             ''PTR_SEQUENCE_NUM'' # tl (get_important_features ''Baltimore'')"
    by (simp add: get_important_features_def)
  have r: "record_features example_world (PDict [(''PTR_SEQUENCE_NUM'', PInt i)])
             (get_important_features ''Baltimore'') =
           Inl (OverflowError ''int too large to convert to float'')"
    by (subst f, rule record_features_overflow [OF _ big]) simp
  show a: "assemble example_world (get_important_features ''Baltimore'')
     (PDict [(''PTR_SEQUENCE_NUM'', PInt i)]) [[(''KDPI'', PInt 1)]] =
     Inl (OverflowError ''int too large to convert to float'')"
    by (simp add: assemble_def combine_def r)
  have l: "load_city_data example_world ''Baltimore'' = [[(''KDPI'', PInt 1)]]"
    by (simp add: example_world_load)
  show "generate_tsne example_world Map.empty ''Baltimore''
     (Inr (PDict [(''targetRecord'', PDict [(''PTR_SEQUENCE_NUM'', PInt i)])])) =
     ((500, error_body ''int too large to convert to float''), Map.empty)"
    by (simp add: generate_tsne_well_formed l compute_tsne_def a)
qed

text \<open>
  C3. The failing input: a target record whose \<open>PTR_SEQUENCE_NUM\<close> is the JSON integer
  \<open>10 ^ 400\<close>, for Baltimore with a dataset of one record. \<^verbatim>\<open>float\<close> raises
  \<^verbatim>\<open>OverflowError\<close>, which \<^verbatim>\<open>except (ValueError, TypeError)\<close> does not catch:
  no matrix is assembled and the request is answered 500.
\<close>

theorem huge_integer_breaks_assembly:
  "assemble example_world (get_important_features ''Baltimore'')
     (PDict [(''PTR_SEQUENCE_NUM'', PInt (10 ^ 400))]) [[(''KDPI'', PInt 1)]] =
     Inl (OverflowError ''int too large to convert to float'') \<and>
   generate_tsne example_world Map.empty ''Baltimore''
     (Inr (PDict [(''targetRecord'', PDict [(''PTR_SEQUENCE_NUM'', PInt (10 ^ 400))])])) =
     ((500, error_body ''int too large to convert to float''), Map.empty)"
proof -
  have big: "(2::int) ^ 1024 \<le> \<bar>10 ^ 400\<bar>"
    by simp
  show ?thesis
    using huge_sequence_number [OF big] by (simp only: simp_thms)
qed

lemma unknown_city_no_data:
  assumes "city \<noteq> ''Baltimore''" and "city \<noteq> ''Boston''" and "city \<noteq> ''LA''"
  shows "get_important_features city = [] \<and> load_city_data w city = []"
  using assms
  by (simp add: get_important_features_def load_city_data_def load_city_data_try_def
      city_file_map_def)

text \<open>
  C7, as the code has it. For a city other than the three configured ones, feature
  selection returns the empty list and the dataset is empty; a request whose body carries
  a target record that is an object, and whose cache key holds no entry, is answered 404
  with \<open>No data available for <city>\<close>.
\<close>

theorem unknown_city_is_404:
  assumes "city \<noteq> ''Baltimore''" and "city \<noteq> ''Boston''" and "city \<noteq> ''LA''"
  shows "get_important_features city = [] \<and>
         load_city_data w city = [] \<and>
         (\<forall>body t c. map_of body ''targetRecord'' = Some (PDict t) \<and>
            c (cache_key w city (dict_get t ''PTR_SEQUENCE_NUM'' (PStr ''unknown''))) = None \<longrightarrow>
            generate_tsne w c city (Inr (PDict body)) =
              ((404, error_body (''No data available for '' @ city)), c))"
  using unknown_city_no_data [OF assms] empty_dataset_404 by blast

theorem unknown_city_is_404_witness:
  "get_important_features ''Atlantis'' = [] \<and>
   generate_tsne example_world Map.empty ''Atlantis''
     (Inr (PDict [(''targetRecord'', PDict [(''KDPI'', PInt 3)])])) =
     ((404, error_body ''No data available for Atlantis''), Map.empty)"
proof -
  have a: "''Atlantis'' \<noteq> ''Baltimore''" and b: "''Atlantis'' \<noteq> ''Boston''"
    and l: "''Atlantis'' \<noteq> ''LA''"
    by simp_all
  show ?thesis
    using unknown_city_is_404 [OF a b l, of example_world] by simp
qed

text \<open>
  The claim of C7 as it is written fails: a request for an unconfigured city whose body
  has no \<open>targetRecord\<close> is answered 500, not 404.
\<close>

theorem unknown_city_500_counterexample:
  "get_important_features ''Atlantis'' = [] \<and>
   fst (fst (generate_tsne example_world Map.empty ''Atlantis'' (Inr (PDict [])))) = 500"
  by (simp add: missing_target_record get_important_features_def)

subsection \<open>The cache\<close>

lemma str_int_42: "str_int 42 = ''42''"
  by code_simp

lemma cache_key_same_print:
  "repr_val w' = repr_val w \<Longrightarrow> cache_key w' city rid = cache_key w city rid"
  by (cases rid) (simp_all add: cache_key_def)

lemma cache_key_text [simp]: "cache_key w city (PStr s) = city @ ''_'' @ s"
  by (simp add: cache_key_def)

lemma generate_tsne_hit:
  assumes "map_of body ''targetRecord'' = Some (PDict t)"
    and "c (cache_key w city (dict_get t ''PTR_SEQUENCE_NUM'' (PStr ''unknown''))) = Some stored"
  shows "generate_tsne w c city (Inr (PDict body)) = ((200, stored), c)"
  using assms by (simp add: generate_tsne_well_formed)

lemma generate_tsne_stores:
  assumes wf: "map_of body ''targetRecord'' = Some (PDict t)"
    and ok: "generate_tsne w c city (Inr (PDict body)) = ((200, b), c1)"
  shows "c1 (cache_key w city (dict_get t ''PTR_SEQUENCE_NUM'' (PStr ''unknown''))) = Some b"
  using ok unfolding generate_tsne_well_formed [OF wf]
  by (auto split: option.splits if_splits sum.splits)

lemma generate_tsne_miss_stores:
  assumes wf: "map_of body ''targetRecord'' = Some (PDict t)"
    and miss: "c (cache_key w city (dict_get t ''PTR_SEQUENCE_NUM'' (PStr ''unknown''))) = None"
    and ok: "generate_tsne w c city (Inr (PDict body)) = ((200, b), c1)"
  shows "c1 = c(cache_key w city (dict_get t ''PTR_SEQUENCE_NUM'' (PStr ''unknown'')) \<mapsto> b) \<and>
         (\<exists>Y. compute_tsne w (get_important_features city) (PDict t) (load_city_data w city) = Inr Y \<and>
              b = make_response Y (dict_get t ''PTR_SEQUENCE_NUM'' (PStr ''unknown'')))"
  using ok miss unfolding generate_tsne_well_formed [OF wf]
  by (auto split: option.splits if_splits sum.splits)

lemma generate_tsne_other_keys:
  assumes wf: "map_of body ''targetRecord'' = Some (PDict t)"
    and other: "k \<noteq> cache_key w city (dict_get t ''PTR_SEQUENCE_NUM'' (PStr ''unknown''))"
  shows "snd (generate_tsne w c city (Inr (PDict body))) k = c k"
  using other unfolding generate_tsne_well_formed [OF wf]
  by (auto split: option.splits if_splits sum.splits)

lemma repeated_request:
  assumes wf1: "map_of body1 ''targetRecord'' = Some (PDict t1)"
    and wf2: "map_of body2 ''targetRecord'' = Some (PDict t2)"
    and ok: "generate_tsne w c city1 (Inr (PDict body1)) = ((200, b), c1)"
    and same: "cache_key w' city2 (dict_get t2 ''PTR_SEQUENCE_NUM'' (PStr ''unknown'')) =
               cache_key w city1 (dict_get t1 ''PTR_SEQUENCE_NUM'' (PStr ''unknown''))"
  shows "generate_tsne w' (serve c1 later) city2 (Inr (PDict body2)) = ((200, b), serve c1 later)"
proof -
  have "c1 (cache_key w city1 (dict_get t1 ''PTR_SEQUENCE_NUM'' (PStr ''unknown''))) = Some b"
    using wf1 ok by (rule generate_tsne_stores)
  then have "serve c1 later (cache_key w city1 (dict_get t1 ''PTR_SEQUENCE_NUM'' (PStr ''unknown''))) =
               Some b"
    by (rule serve_keeps_entries)
  then show ?thesis
    using wf2 same by (simp add: generate_tsne_hit)
qed

lemma example_world_request:
  assumes city: "city = ''Baltimore'' \<or> city = ''Boston'' \<or> city = ''LA''"
    and wf: "map_of body ''targetRecord'' = Some (PDict t)"
    and conv: "convertible_record t"
    and miss: "c (cache_key example_world city (dict_get t ''PTR_SEQUENCE_NUM'' (PStr ''unknown''))) = None"
  shows "generate_tsne example_world c city (Inr (PDict body)) =
           ((200, make_response [[Fin 0, Fin 0], [Fin 0, Fin 0]]
                    (dict_get t ''PTR_SEQUENCE_NUM'' (PStr ''unknown''))),
            c(cache_key example_world city (dict_get t ''PTR_SEQUENCE_NUM'' (PStr ''unknown'')) \<mapsto>
                make_response [[Fin 0, Fin 0], [Fin 0, Fin 0]]
                  (dict_get t ''PTR_SEQUENCE_NUM'' (PStr ''unknown''))))"
  using miss
  by (simp add: generate_tsne_well_formed [OF wf] example_world_load [OF city]
      example_world_compute [OF conv])

text \<open>
  The claim of C5 as it is written fails: the identifiers \<open>42\<close> (a number) and
  \<open>"42"\<close> (a string) are different, yet both print as \<open>LA_42\<close>. After the request
  with the number has been answered, the request with the string is answered from the
  entry of the first, with the first one's identifier, even in a world where the dataset
  can no longer be read.
\<close>

theorem cache_key_collision_counterexample:
  "(''LA'', PInt 42) \<noteq> (''LA'', PStr ''42'') \<and>
   cache_key example_world ''LA'' (PInt 42) = cache_key broken_world ''LA'' (PStr ''42'') \<and>
   generate_tsne example_world Map.empty ''LA''
     (Inr (PDict [(''targetRecord'', PDict [(''PTR_SEQUENCE_NUM'', PInt 42)])])) =
     ((200, make_response [[Fin 0, Fin 0], [Fin 0, Fin 0]] (PInt 42)),
      [''LA_42'' \<mapsto> make_response [[Fin 0, Fin 0], [Fin 0, Fin 0]] (PInt 42)]) \<and>
   generate_tsne broken_world
     [''LA_42'' \<mapsto> make_response [[Fin 0, Fin 0], [Fin 0, Fin 0]] (PInt 42)] ''LA''
     (Inr (PDict [(''targetRecord'', PDict [(''PTR_SEQUENCE_NUM'', PStr ''42'')])])) =
     ((200, make_response [[Fin 0, Fin 0], [Fin 0, Fin 0]] (PInt 42)),
      [''LA_42'' \<mapsto> make_response [[Fin 0, Fin 0], [Fin 0, Fin 0]] (PInt 42)])"
proof -
  have k1: "cache_key example_world ''LA'' (PInt 42) = ''LA_42''"
    by (simp add: cache_key_def str_int_42)
  have k2: "cache_key broken_world ''LA'' (PStr ''42'') = ''LA_42''"
    by simp
  have conv: "convertible_record [(''PTR_SEQUENCE_NUM'', PInt 42)]"
    by (simp add: convertible_record_def convertible_def)
  have first: "generate_tsne example_world Map.empty ''LA''
     (Inr (PDict [(''targetRecord'', PDict [(''PTR_SEQUENCE_NUM'', PInt 42)])])) =
     ((200, make_response [[Fin 0, Fin 0], [Fin 0, Fin 0]] (PInt 42)),
      [''LA_42'' \<mapsto> make_response [[Fin 0, Fin 0], [Fin 0, Fin 0]] (PInt 42)])"
    using example_world_request [of "''LA''" "[(''targetRecord'', PDict [(''PTR_SEQUENCE_NUM'', PInt 42)])]"
        "[(''PTR_SEQUENCE_NUM'', PInt 42)]" Map.empty, OF _ _ conv]
    by (simp add: dict_get_def k1)
  have second: "generate_tsne broken_world
     [''LA_42'' \<mapsto> make_response [[Fin 0, Fin 0], [Fin 0, Fin 0]] (PInt 42)] ''LA''
     (Inr (PDict [(''targetRecord'', PDict [(''PTR_SEQUENCE_NUM'', PStr ''42'')])])) =
     ((200, make_response [[Fin 0, Fin 0], [Fin 0, Fin 0]] (PInt 42)),
      [''LA_42'' \<mapsto> make_response [[Fin 0, Fin 0], [Fin 0, Fin 0]] (PInt 42)])"
    by (rule generate_tsne_hit [where t = "[(''PTR_SEQUENCE_NUM'', PStr ''42'')]"])
      (simp_all add: dict_get_def)
  show ?thesis
    using first second by (simp add: k1)
qed

text \<open>
  C5, as the code has it. The cache is keyed by the text \<open><city>_<identifier as printed>\<close>.
  For requests whose body carries a target record that is an object:
  \<^item> a request whose key holds an entry is answered 200 with that entry and leaves the
    cache as it is, whatever the world (the dataset and the projection are not consulted);
  \<^item> a request that finds no entry and is answered 200 has stored its answer under its
    key, and the answer is the projection computed for it;
  \<^item> once a request has been answered 200, every later request with the same key (the
    same city and the same identifier give the same key) is answered with that same
    body, after any number of requests in between;
  \<^item> a request leaves the entries under every key other than its own untouched, so
    requests with different keys never share an entry.
\<close>

theorem cache_keyed_by_text:
  assumes wf1: "map_of body1 ''targetRecord'' = Some (PDict t1)"
    and wf2: "map_of body2 ''targetRecord'' = Some (PDict t2)"
    and rid1: "rid1 = dict_get t1 ''PTR_SEQUENCE_NUM'' (PStr ''unknown'')"
    and rid2: "rid2 = dict_get t2 ''PTR_SEQUENCE_NUM'' (PStr ''unknown'')"
  shows "cache_key w city1 rid1 = city1 @ ''_'' @ py_str w rid1 \<and>
         (\<forall>stored. c (cache_key w city1 rid1) = Some stored \<longrightarrow>
            generate_tsne w c city1 (Inr (PDict body1)) = ((200, stored), c)) \<and>
         (\<forall>b c1. c (cache_key w city1 rid1) = None \<and>
            generate_tsne w c city1 (Inr (PDict body1)) = ((200, b), c1) \<longrightarrow>
            c1 = c(cache_key w city1 rid1 \<mapsto> b) \<and>
            (\<exists>Y. compute_tsne w (get_important_features city1) (PDict t1) (load_city_data w city1) =
                    Inr Y \<and> b = make_response Y rid1)) \<and>
         (\<forall>b c1 w' later. generate_tsne w c city1 (Inr (PDict body1)) = ((200, b), c1) \<and>
            cache_key w' city2 rid2 = cache_key w city1 rid1 \<longrightarrow>
            generate_tsne w' (serve c1 later) city2 (Inr (PDict body2)) = ((200, b), serve c1 later)) \<and>
         (\<forall>w'. repr_val w' = repr_val w \<and> city2 = city1 \<and> rid2 = rid1 \<longrightarrow>
            cache_key w' city2 rid2 = cache_key w city1 rid1) \<and>
         (cache_key w city2 rid2 \<noteq> cache_key w city1 rid1 \<longrightarrow>
            snd (generate_tsne w c city1 (Inr (PDict body1))) (cache_key w city2 rid2) =
              c (cache_key w city2 rid2))"
proof -
  have a: "cache_key w city1 rid1 = city1 @ ''_'' @ py_str w rid1"
    by (simp add: cache_key_def)
  have b: "\<forall>stored. c (cache_key w city1 rid1) = Some stored \<longrightarrow>
            generate_tsne w c city1 (Inr (PDict body1)) = ((200, stored), c)"
    using generate_tsne_hit [OF wf1] unfolding rid1 by blast
  have d: "\<forall>b c1. c (cache_key w city1 rid1) = None \<and>
            generate_tsne w c city1 (Inr (PDict body1)) = ((200, b), c1) \<longrightarrow>
            c1 = c(cache_key w city1 rid1 \<mapsto> b) \<and>
            (\<exists>Y. compute_tsne w (get_important_features city1) (PDict t1) (load_city_data w city1) =
                    Inr Y \<and> b = make_response Y rid1)"
    using generate_tsne_miss_stores [OF wf1] unfolding rid1 by blast
  have e: "\<forall>b c1 w' later. generate_tsne w c city1 (Inr (PDict body1)) = ((200, b), c1) \<and>
            cache_key w' city2 rid2 = cache_key w city1 rid1 \<longrightarrow>
            generate_tsne w' (serve c1 later) city2 (Inr (PDict body2)) = ((200, b), serve c1 later)"
    using repeated_request [OF wf1 wf2] unfolding rid1 rid2 by blast
  have f: "\<forall>w'. repr_val w' = repr_val w \<and> city2 = city1 \<and> rid2 = rid1 \<longrightarrow>
            cache_key w' city2 rid2 = cache_key w city1 rid1"
    using cache_key_same_print by blast
  have g: "cache_key w city2 rid2 \<noteq> cache_key w city1 rid1 \<longrightarrow>
            snd (generate_tsne w c city1 (Inr (PDict body1))) (cache_key w city2 rid2) =
              c (cache_key w city2 rid2)"
    using generate_tsne_other_keys [OF wf1] unfolding rid1 by blast
  show ?thesis
    using a b d e f g by blast
qed

theorem cache_keyed_by_text_witness:
  "generate_tsne example_world Map.empty ''LA''
     (Inr (PDict [(''targetRecord'', PDict [(''PTR_SEQUENCE_NUM'', PStr ''7''), (''KDPI'', PInt 1)])])) =
     ((200, make_response [[Fin 0, Fin 0], [Fin 0, Fin 0]] (PStr ''7'')),
      [''LA_7'' \<mapsto> make_response [[Fin 0, Fin 0], [Fin 0, Fin 0]] (PStr ''7'')]) \<and>
   generate_tsne broken_world
     [''LA_7'' \<mapsto> make_response [[Fin 0, Fin 0], [Fin 0, Fin 0]] (PStr ''7'')] ''LA''
     (Inr (PDict [(''targetRecord'', PDict [(''PTR_SEQUENCE_NUM'', PStr ''7''), (''KDPI'', PInt 99)])])) =
     ((200, make_response [[Fin 0, Fin 0], [Fin 0, Fin 0]] (PStr ''7'')),
      [''LA_7'' \<mapsto> make_response [[Fin 0, Fin 0], [Fin 0, Fin 0]] (PStr ''7'')])"
proof -
  let ?t1 = "[(''PTR_SEQUENCE_NUM'', PStr ''7''), (''KDPI'', PInt 1)]"
  let ?t2 = "[(''PTR_SEQUENCE_NUM'', PStr ''7''), (''KDPI'', PInt 99)]"
  let ?R = "make_response [[Fin 0, Fin 0], [Fin 0, Fin 0]] (PStr ''7'')"
  have wf1: "map_of [(''targetRecord'', PDict ?t1)] ''targetRecord'' = Some (PDict ?t1)"
    by simp
  have wf2: "map_of [(''targetRecord'', PDict ?t2)] ''targetRecord'' = Some (PDict ?t2)"
    by simp
  have conv: "convertible_record ?t1"
    by (simp add: convertible_record_def convertible_def)
  have first: "generate_tsne example_world Map.empty ''LA'' (Inr (PDict [(''targetRecord'', PDict ?t1)])) =
                 ((200, ?R), [''LA_7'' \<mapsto> ?R])"
    using example_world_request [OF _ wf1 conv, of "''LA''" Map.empty]
    by (simp add: dict_get_def)
  have same: "cache_key broken_world ''LA'' (dict_get ?t2 ''PTR_SEQUENCE_NUM'' (PStr ''unknown'')) =
              cache_key example_world ''LA'' (dict_get ?t1 ''PTR_SEQUENCE_NUM'' (PStr ''unknown''))"
    by (simp add: dict_get_def)
  have "generate_tsne broken_world (serve [''LA_7'' \<mapsto> ?R] []) ''LA''
          (Inr (PDict [(''targetRecord'', PDict ?t2)])) = ((200, ?R), serve [''LA_7'' \<mapsto> ?R] [])"
    using cache_keyed_by_text [OF wf1 wf2 refl refl, of example_world "''LA''" Map.empty "''LA''"]
      first same
    by blast
  then show ?thesis
    using first by simp
qed

text \<open>
  The join with an underscore is ambiguous as well: the entry stored for city \<open>LA\<close> and
  identifier \<open>1_2\<close> answers a request for the unconfigured city \<open>LA_1\<close> with
  identifier \<open>2\<close>.
\<close>

lemma underscore_collision:
  "generate_tsne example_world Map.empty ''LA''
     (Inr (PDict [(''targetRecord'', PDict [(''PTR_SEQUENCE_NUM'', PStr ''1_2'')])])) =
     ((200, make_response [[Fin 0, Fin 0], [Fin 0, Fin 0]] (PStr ''1_2'')),
      [''LA_1_2'' \<mapsto> make_response [[Fin 0, Fin 0], [Fin 0, Fin 0]] (PStr ''1_2'')]) \<and>
   generate_tsne example_world
     [''LA_1_2'' \<mapsto> make_response [[Fin 0, Fin 0], [Fin 0, Fin 0]] (PStr ''1_2'')] ''LA_1''
     (Inr (PDict [(''targetRecord'', PDict [(''PTR_SEQUENCE_NUM'', PStr ''2'')])])) =
     ((200, make_response [[Fin 0, Fin 0], [Fin 0, Fin 0]] (PStr ''1_2'')),
      [''LA_1_2'' \<mapsto> make_response [[Fin 0, Fin 0], [Fin 0, Fin 0]] (PStr ''1_2'')])"
proof -
  have conv: "convertible_record [(''PTR_SEQUENCE_NUM'', PStr ''1_2'')]"
    by (simp add: convertible_record_def convertible_def)
  have first: "generate_tsne example_world Map.empty ''LA''
     (Inr (PDict [(''targetRecord'', PDict [(''PTR_SEQUENCE_NUM'', PStr ''1_2'')])])) =
     ((200, make_response [[Fin 0, Fin 0], [Fin 0, Fin 0]] (PStr ''1_2'')),
      [''LA_1_2'' \<mapsto> make_response [[Fin 0, Fin 0], [Fin 0, Fin 0]] (PStr ''1_2'')])"
    using example_world_request [OF _ _ conv, of "''LA''"
        "[(''targetRecord'', PDict [(''PTR_SEQUENCE_NUM'', PStr ''1_2'')])]" Map.empty]
    by (simp add: dict_get_def)
  have second: "generate_tsne example_world
     [''LA_1_2'' \<mapsto> make_response [[Fin 0, Fin 0], [Fin 0, Fin 0]] (PStr ''1_2'')] ''LA_1''
     (Inr (PDict [(''targetRecord'', PDict [(''PTR_SEQUENCE_NUM'', PStr ''2'')])])) =
     ((200, make_response [[Fin 0, Fin 0], [Fin 0, Fin 0]] (PStr ''1_2'')),
      [''LA_1_2'' \<mapsto> make_response [[Fin 0, Fin 0], [Fin 0, Fin 0]] (PStr ''1_2'')])"
    by (rule generate_tsne_hit [where t = "[(''PTR_SEQUENCE_NUM'', PStr ''2'')]"])
      (simp_all add: dict_get_def)
  show ?thesis
    using first second by simp
qed

subsection \<open>Assembly of records with numbers of ordinary size\<close>

text \<open>
  X1. For a target record and dataset records whose integers are below \<open>2 ^ 1023\<close> in
  magnitude, and any feature list, assembly returns a matrix: one row for the target and
  one per dataset record, each row with one finite number per feature.
\<close>

theorem assembly_of_ordinary_records:
  assumes "convertible_record t" and "list_all convertible_record rows"
  shows "\<exists>X. assemble w fs (PDict t) rows = Inr X \<and> length X = Suc (length rows) \<and>
           list_all (\<lambda>row. length row = length fs \<and> list_all (\<lambda>x. \<exists>q. x = Fin q) row) X"
proof -
  obtain X where X: "assemble w fs (PDict t) rows = Inr X"
    using assemble_returns [OF assms] by blast
  show ?thesis
    using X assemble_dimensions [OF X] by blast
qed

lemma nan_becomes_zero:
  "assemble example_world [''KDPI'', ''AGE_DON'', ''BUN_DON'', ''PH_DON'']
     (PDict [(''KDPI'', PFloat NaN), (''AGE_DON'', PStr ''abc''), (''BUN_DON'', PNone)])
     [[(''KDPI'', PInt 3)]] =
   Inr [[Fin 0, Fin 0, Fin 0, Fin 0], [Fin 3, Fin 0, Fin 0, Fin 0]]"
  by (simp add: assemble_def combine_def feature_value_def dict_get_def example_world_def
      float_of_int_small)

theorem assembly_of_ordinary_records_witness:
  "\<exists>X. assemble example_world [''KDPI'', ''AGE_DON'', ''BUN_DON'', ''PH_DON'']
          (PDict [(''KDPI'', PFloat NaN), (''AGE_DON'', PStr ''abc''), (''BUN_DON'', PNone)])
          [[(''KDPI'', PInt 3)]] = Inr X \<and>
        length X = 2 \<and>
        list_all (\<lambda>row. length row = 4 \<and> list_all (\<lambda>x. \<exists>q. x = Fin q) row) X"
proof -
  have a: "convertible_record [(''KDPI'', PFloat NaN), (''AGE_DON'', PStr ''abc''), (''BUN_DON'', PNone)]"
    by (simp add: convertible_record_def convertible_def)
  have b: "list_all convertible_record [[(''KDPI'', PInt 3)]]"
    by (simp add: convertible_record_def convertible_def)
  show ?thesis
    using assembly_of_ordinary_records [OF a b, of example_world
        "[''KDPI'', ''AGE_DON'', ''BUN_DON'', ''PH_DON'']"]
    by (simp add: eval_nat_numeral)
qed

subsection \<open>The reference-data lookup\<close>

lemma no_substring_no_match:
  "list_all (\<lambda>f. \<not> contains (str_lower w city) (str_lower w f)) files \<Longrightarrow>
     list_all (\<lambda>f. \<not> matches_city w city f) files"
  by (simp add: list_all_iff matches_city_def)

lemma resolve_file_name_None:
  "resolve_file_name w city files = None \<longleftrightarrow>
     file_mapping city = None \<and> list_all (\<lambda>f. \<not> matches_city w city f) files"
  by (auto simp: resolve_file_name_def find_None_iff list_all_iff split: option.splits)

lemma get_reference_data_500:
  "fst (get_reference_data w city) = 500 \<longleftrightarrow>
     (\<exists>e. listdir w = Inl e) \<or>
     (\<exists>files file_name e. listdir w = Inr files \<and>
        resolve_file_name w city files = Some file_name \<and>
        read_csv w (data_dir w @ ''/'' @ file_name) = Inl e)"
  by (auto simp: get_reference_data_def split: sum.splits option.splits)

lemma get_reference_data_not_found:
  assumes "listdir w = Inr files" and "resolve_file_name w city files = None"
  shows "get_reference_data w city =
           (404, PDict [(''error'', PStr (''Reference data file not found for '' @ city))])"
  using assms by (simp add: get_reference_data_def error_body_def)

lemma get_reference_data_unlisted:
  assumes "listdir w = Inl e"
  shows "get_reference_data w city =
           (500, PDict [(''error'', PStr (''Error listing files: '' @ str_exn e))])"
  using assms by (simp add: get_reference_data_def error_body_def)

lemma get_reference_data_unread:
  assumes "listdir w = Inr files" and "resolve_file_name w city files = Some file_name"
    and "read_csv w (data_dir w @ ''/'' @ file_name) = Inl e"
  shows "get_reference_data w city =
           (500, PDict [(''error'', PStr (''Failed to read reference data: '' @ str_exn e))])"
  using assms by (simp add: get_reference_data_def error_body_def)

text \<open>
  C4, as the code has it. When the data directory can be listed, the city has no entry
  in the static mapping and no listed file name contains the city name (both lowered by
  \<^verbatim>\<open>str.lower\<close>), the lookup answers 404 with the body
  \<open>{'error': 'Reference data file not found for <city>'}\<close>. When the listing fails
  the answer is 500 with \<open>Error listing files: ...\<close>, for every city. An answer of 500
  is given only when the listing fails or when reading the file name the lookup settled
  on fails; and a failed read of a file that is in the listing is answered 500 with
  \<open>Failed to read reference data: ...\<close>.
\<close>

theorem reference_lookup_statuses:
  "(listdir w = Inr files \<and> file_mapping city = None \<and>
    list_all (\<lambda>f. \<not> contains (str_lower w city) (str_lower w f)) files \<longrightarrow>
      get_reference_data w city =
        (404, PDict [(''error'', PStr (''Reference data file not found for '' @ city))])) \<and>
   (\<forall>e. listdir w = Inl e \<longrightarrow>
      get_reference_data w city =
        (500, PDict [(''error'', PStr (''Error listing files: '' @ str_exn e))])) \<and>
   (fst (get_reference_data w city) = 500 \<longrightarrow>
      (\<exists>e. listdir w = Inl e) \<or>
      (\<exists>fs file_name e. listdir w = Inr fs \<and> resolve_file_name w city fs = Some file_name \<and>
         read_csv w (data_dir w @ ''/'' @ file_name) = Inl e)) \<and>
   (\<forall>fs file_name e. listdir w = Inr fs \<and> resolve_file_name w city fs = Some file_name \<and>
      List.member fs file_name \<and> read_csv w (data_dir w @ ''/'' @ file_name) = Inl e \<longrightarrow>
      get_reference_data w city =
        (500, PDict [(''error'', PStr (''Failed to read reference data: '' @ str_exn e))]))"
proof -
  have a: "listdir w = Inr files \<and> file_mapping city = None \<and>
    list_all (\<lambda>f. \<not> contains (str_lower w city) (str_lower w f)) files \<longrightarrow>
      get_reference_data w city =
        (404, PDict [(''error'', PStr (''Reference data file not found for '' @ city))])"
    using get_reference_data_not_found [of w files city] no_substring_no_match [of w city files]
    by (simp add: resolve_file_name_None)
  have b: "\<forall>e. listdir w = Inl e \<longrightarrow>
      get_reference_data w city =
        (500, PDict [(''error'', PStr (''Error listing files: '' @ str_exn e))])"
    using get_reference_data_unlisted by blast
  have c: "fst (get_reference_data w city) = 500 \<longrightarrow>
      (\<exists>e. listdir w = Inl e) \<or>
      (\<exists>fs file_name e. listdir w = Inr fs \<and> resolve_file_name w city fs = Some file_name \<and>
         read_csv w (data_dir w @ ''/'' @ file_name) = Inl e)"
    using get_reference_data_500 [of w city] by blast
  have d: "\<forall>fs file_name e. listdir w = Inr fs \<and> resolve_file_name w city fs = Some file_name \<and>
      List.member fs file_name \<and> read_csv w (data_dir w @ ''/'' @ file_name) = Inl e \<longrightarrow>
      get_reference_data w city =
        (500, PDict [(''error'', PStr (''Failed to read reference data: '' @ str_exn e))])"
    using get_reference_data_unread by blast
  show ?thesis
    using a b c d by blast
qed

lemma atlantis_matches_nothing:
  "list_all (\<lambda>f. \<not> contains (ascii_lower ''Atlantis'') (ascii_lower f))
     [''boston_reference.csv'', ''notes.txt'']"
  by code_simp

lemma boston_only_world_lower: "str_lower boston_only_world = ascii_lower"
  by (simp add: boston_only_world_def example_world_def)

theorem reference_lookup_statuses_witness:
  "get_reference_data boston_only_world ''Atlantis'' =
     (404, PDict [(''error'', PStr ''Reference data file not found for Atlantis'')]) \<and>
   get_reference_data unlisted_world ''Atlantis'' =
     (500, PDict [(''error'', PStr ''Error listing files: No such file or directory'')])"
proof -
  have l: "listdir boston_only_world = Inr [''boston_reference.csv'', ''notes.txt'']"
    by (simp add: boston_only_world_def)
  have m: "file_mapping ''Atlantis'' = None"
    by (simp add: file_mapping_def)
  have u: "listdir unlisted_world = Inl (OtherError ''No such file or directory'')"
    by (simp add: unlisted_world_def)
  show ?thesis
    using reference_lookup_statuses [of boston_only_world "[''boston_reference.csv'', ''notes.txt'']"
        "''Atlantis''"]
      reference_lookup_statuses [of unlisted_world "[]" "''Atlantis''"]
      l m u atlantis_matches_nothing
    by (simp add: boston_only_world_lower)
qed

lemma baltimore_finds_nothing:
  "find (\<lambda>f. contains (ascii_lower ''Baltimore'') (ascii_lower f) \<and>
              endswith (ascii_lower f) ''.csv'')
     [''boston_reference.csv'', ''notes.txt''] = None"
  by code_simp

lemma baltimore_keeps_mapped_name:
  "resolve_file_name boston_only_world ''Baltimore'' [''boston_reference.csv'', ''notes.txt''] =
     Some ''baltimore_reference.csv''"
proof -
  have "matches_city boston_only_world ''Baltimore'' =
          (\<lambda>f. contains (ascii_lower ''Baltimore'') (ascii_lower f) \<and>
                endswith (ascii_lower f) ''.csv'')"
    by (simp add: matches_city_def boston_only_world_lower fun_eq_iff)
  then have f: "find (matches_city boston_only_world ''Baltimore'')
                  [''boston_reference.csv'', ''notes.txt''] = None"
    by (simp only: baltimore_finds_nothing)
  show ?thesis
    unfolding resolve_file_name_def f by (simp add: file_mapping_def)
qed

text \<open>
  The claim of C4 as it is written fails twice. When the data directory cannot be listed,
  a city for which nothing resolves is answered 500, not 404. And for a configured city
  whose mapped file is not in the directory, with no other file matching, the lookup
  keeps the mapped name, the read fails, and the answer is 500, not 404.
\<close>

theorem reference_lookup_counterexample:
  "file_mapping ''Atlantis'' = None \<and>
   get_reference_data unlisted_world ''Atlantis'' =
     (500, PDict [(''error'', PStr ''Error listing files: No such file or directory'')]) \<and>
   file_mapping ''Baltimore'' = Some ''baltimore_reference.csv'' \<and>
   listdir boston_only_world = Inr [''boston_reference.csv'', ''notes.txt''] \<and>
   get_reference_data boston_only_world ''Baltimore'' =
     (500, PDict [(''error'', PStr ''Failed to read reference data: No such file or directory'')])"
proof -
  have a: "get_reference_data unlisted_world ''Atlantis'' =
     (500, PDict [(''error'', PStr ''Error listing files: No such file or directory'')])"
    by (simp add: get_reference_data_def unlisted_world_def error_body_def)
  have l: "listdir boston_only_world = Inr [''boston_reference.csv'', ''notes.txt'']"
    by (simp add: boston_only_world_def)
  have b: "get_reference_data boston_only_world ''Baltimore'' =
     (500, PDict [(''error'', PStr ''Failed to read reference data: No such file or directory'')])"
    by (simp add: get_reference_data_def l baltimore_keeps_mapped_name)
      (simp add: boston_only_world_def example_world_def error_body_def)
  show ?thesis
    using a b l by (simp add: file_mapping_def)
qed

subsection \<open>Requests without an identifier\<close>

lemma make_response_body:
  "make_response Y record_id =
     PDict [(''coordinates'', PList (map (\<lambda>point. PList (map PFloat point)) Y)),
            (''recordId'', record_id)]"
  by (simp add: make_response_def tolist_def)

lemma no_identifier:
  "map_of t ''PTR_SEQUENCE_NUM'' = None \<Longrightarrow>
     dict_get t ''PTR_SEQUENCE_NUM'' (PStr ''unknown'') = PStr ''unknown''"
  by (simp add: dict_get_def)

lemma generate_tsne_hit_unchanged:
  assumes wf: "map_of body ''targetRecord'' = Some (PDict t)"
    and hit: "c (cache_key w city (dict_get t ''PTR_SEQUENCE_NUM'' (PStr ''unknown''))) = Some stored"
    and ok: "generate_tsne w c city (Inr (PDict body)) = ((200, b), c1)"
  shows "b = stored \<and> c1 = c"
  using ok generate_tsne_hit [where c = c, OF wf hit] by simp

text \<open>
  C9, as the code has it. A target record without \<open>PTR_SEQUENCE_NUM\<close> gets the
  identifier \<open>'unknown'\<close> and the cache key \<open><city>_unknown\<close>. Once such a request
  has been answered 200, its answer is the entry under that key, and from then on, after
  any number of other requests, every request for the same city whose target record has
  no \<open>PTR_SEQUENCE_NUM\<close> is answered 200 with that same body, whatever its other fields
  and whatever the world. When the first request found no entry, its body is
  \<open>{'coordinates': <the points computed for it>, 'recordId': 'unknown'}\<close>; when it
  found one, its body is that entry, as it was stored.
\<close>

theorem unknown_identifier_shares_entry:
  assumes wf: "map_of body ''targetRecord'' = Some (PDict t)"
    and noid: "map_of t ''PTR_SEQUENCE_NUM'' = None"
    and ok: "generate_tsne w c city (Inr (PDict body)) = ((200, b), c1)"
  shows "dict_get t ''PTR_SEQUENCE_NUM'' (PStr ''unknown'') = PStr ''unknown'' \<and>
         cache_key w city (PStr ''unknown'') = city @ ''_unknown'' \<and>
         c1 (city @ ''_unknown'') = Some b \<and>
         (c (city @ ''_unknown'') = None \<longrightarrow>
            c1 = c(city @ ''_unknown'' \<mapsto> b) \<and>
            (\<exists>Y. compute_tsne w (get_important_features city) (PDict t) (load_city_data w city) =
                    Inr Y \<and>
                 b = PDict [(''coordinates'', PList (map (\<lambda>point. PList (map PFloat point)) Y)),
                            (''recordId'', PStr ''unknown'')])) \<and>
         (\<forall>stored. c (city @ ''_unknown'') = Some stored \<longrightarrow> b = stored \<and> c1 = c) \<and>
         (\<forall>later w' body' t'.
            map_of body' ''targetRecord'' = Some (PDict t') \<and>
            map_of t' ''PTR_SEQUENCE_NUM'' = None \<longrightarrow>
            generate_tsne w' (serve c1 later) city (Inr (PDict body')) = ((200, b), serve c1 later))"
proof -
  have rid: "dict_get t ''PTR_SEQUENCE_NUM'' (PStr ''unknown'') = PStr ''unknown''"
    using noid by (rule no_identifier)
  have key: "cache_key w city (PStr ''unknown'') = city @ ''_unknown''"
    by simp
  have stored: "c1 (city @ ''_unknown'') = Some b"
    using generate_tsne_stores [OF wf ok] by (simp add: rid)
  have st: "c1 = c(city @ ''_unknown'' \<mapsto> b) \<and>
         (\<exists>Y. compute_tsne w (get_important_features city) (PDict t) (load_city_data w city) = Inr Y \<and>
              b = PDict [(''coordinates'', PList (map (\<lambda>point. PList (map PFloat point)) Y)),
                         (''recordId'', PStr ''unknown'')])"
    if miss: "c (city @ ''_unknown'') = None"
  proof -
    have "c (cache_key w city (dict_get t ''PTR_SEQUENCE_NUM'' (PStr ''unknown''))) = None"
      using miss by (simp add: rid)
    then show ?thesis
      using generate_tsne_miss_stores [OF wf _ ok] by (simp add: rid make_response_body)
  qed
  have hit: "b = stored \<and> c1 = c" if h: "c (city @ ''_unknown'') = Some stored" for stored
  proof -
    have "c (cache_key w city (dict_get t ''PTR_SEQUENCE_NUM'' (PStr ''unknown''))) = Some stored"
      using h by (simp add: rid)
    then show ?thesis
      using generate_tsne_hit_unchanged [OF wf _ ok] by blast
  qed
  have later: "generate_tsne w' (serve c1 later) city (Inr (PDict body')) = ((200, b), serve c1 later)"
    if wf': "map_of body' ''targetRecord'' = Some (PDict t')"
      and noid': "map_of t' ''PTR_SEQUENCE_NUM'' = None"
    for later w' body' t'
  proof (rule repeated_request [OF wf wf' ok])
    show "cache_key w' city (dict_get t' ''PTR_SEQUENCE_NUM'' (PStr ''unknown'')) =
          cache_key w city (dict_get t ''PTR_SEQUENCE_NUM'' (PStr ''unknown''))"
      by (simp add: rid no_identifier [OF noid'])
  qed
  show ?thesis
    using rid key stored st hit later by blast
qed

lemma example_world_body:
  assumes city: "city = ''Baltimore'' \<or> city = ''Boston'' \<or> city = ''LA''"
    and wf: "map_of body ''targetRecord'' = Some (PDict t)"
    and conv: "convertible_record t"
    and rid: "rid = dict_get t ''PTR_SEQUENCE_NUM'' (PStr ''unknown'')"
    and miss: "c (cache_key example_world city rid) = None"
  shows "generate_tsne example_world c city (Inr (PDict body)) =
           ((200, PDict [(''coordinates'',
                          PList [PList [PFloat (Fin 0), PFloat (Fin 0)],
                                 PList [PFloat (Fin 0), PFloat (Fin 0)]]),
                         (''recordId'', rid)]),
            c(cache_key example_world city rid \<mapsto>
                PDict [(''coordinates'',
                        PList [PList [PFloat (Fin 0), PFloat (Fin 0)],
                               PList [PFloat (Fin 0), PFloat (Fin 0)]]),
                       (''recordId'', rid)]))"
  using example_world_request [OF city wf conv] miss
  by (simp add: rid make_response_body)

theorem unknown_identifier_shares_entry_witness:
  "generate_tsne example_world Map.empty ''Boston''
     (Inr (PDict [(''targetRecord'', PDict [(''KDPI'', PInt 1)])])) =
     ((200, PDict [(''coordinates'',
                    PList [PList [PFloat (Fin 0), PFloat (Fin 0)],
                           PList [PFloat (Fin 0), PFloat (Fin 0)]]),
                   (''recordId'', PStr ''unknown'')]),
      [''Boston_unknown'' \<mapsto>
         PDict [(''coordinates'',
                 PList [PList [PFloat (Fin 0), PFloat (Fin 0)],
                        PList [PFloat (Fin 0), PFloat (Fin 0)]]),
                (''recordId'', PStr ''unknown'')]]) \<and>
   generate_tsne broken_world
     (serve [''Boston_unknown'' \<mapsto>
               PDict [(''coordinates'',
                       PList [PList [PFloat (Fin 0), PFloat (Fin 0)],
                              PList [PFloat (Fin 0), PFloat (Fin 0)]]),
                      (''recordId'', PStr ''unknown'')]]
        [(example_world, ''Atlantis'', Inr (PDict []))])
     ''Boston'' (Inr (PDict [(''targetRecord'', PDict [(''KDPI'', PInt 99), (''AGE_DON'', PStr ''55'')])])) =
     ((200, PDict [(''coordinates'',
                    PList [PList [PFloat (Fin 0), PFloat (Fin 0)],
                           PList [PFloat (Fin 0), PFloat (Fin 0)]]),
                   (''recordId'', PStr ''unknown'')]),
      [''Boston_unknown'' \<mapsto>
         PDict [(''coordinates'',
                 PList [PList [PFloat (Fin 0), PFloat (Fin 0)],
                        PList [PFloat (Fin 0), PFloat (Fin 0)]]),
                (''recordId'', PStr ''unknown'')]])"
proof -
  let ?t = "[(''KDPI'', PInt 1)]"
  let ?t' = "[(''KDPI'', PInt 99), (''AGE_DON'', PStr ''55'')]"
  let ?R = "PDict [(''coordinates'',
                    PList [PList [PFloat (Fin 0), PFloat (Fin 0)],
                           PList [PFloat (Fin 0), PFloat (Fin 0)]]),
                   (''recordId'', PStr ''unknown'')]"
  let ?later = "[(example_world, ''Atlantis'', Inr (PDict []))]"
  have wf: "map_of [(''targetRecord'', PDict ?t)] ''targetRecord'' = Some (PDict ?t)"
    by simp
  have noid: "map_of ?t ''PTR_SEQUENCE_NUM'' = None"
    by simp
  have conv: "convertible_record ?t"
    by (simp add: convertible_record_def convertible_def)
  have first: "generate_tsne example_world Map.empty ''Boston'' (Inr (PDict [(''targetRecord'', PDict ?t)])) =
                 ((200, ?R), [''Boston_unknown'' \<mapsto> ?R])"
    using example_world_body [OF _ wf conv refl, of "''Boston''" Map.empty]
    by (simp add: dict_get_def)
  have wf': "map_of [(''targetRecord'', PDict ?t')] ''targetRecord'' = Some (PDict ?t')"
    by simp
  have noid': "map_of ?t' ''PTR_SEQUENCE_NUM'' = None"
    by simp
  have s: "serve [''Boston_unknown'' \<mapsto> ?R] ?later = [''Boston_unknown'' \<mapsto> ?R]"
    by (simp add: missing_target_record)
  have "generate_tsne broken_world (serve [''Boston_unknown'' \<mapsto> ?R] ?later) ''Boston''
          (Inr (PDict [(''targetRecord'', PDict ?t')])) =
        ((200, ?R), serve [''Boston_unknown'' \<mapsto> ?R] ?later)"
    using unknown_identifier_shares_entry [OF wf noid first] wf' noid'
    by blast
  then show ?thesis
    using first by (simp only: s simp_thms)
qed

text \<open>
  The claim of C9 as it is written fails: the answer to a request without an identifier
  need not carry \<open>recordId = 'unknown'\<close>. The entry stored for city \<open>LA\<close> and
  identifier \<open>x_unknown\<close> has the key \<open>LA_x_unknown\<close>, which is also the key of a
  request without an identifier for the city \<open>LA_x\<close>; that request is answered from
  the entry, with \<open>recordId = 'x_unknown'\<close>.
\<close>

theorem unknown_identifier_counterexample:
  "generate_tsne example_world Map.empty ''LA''
     (Inr (PDict [(''targetRecord'', PDict [(''PTR_SEQUENCE_NUM'', PStr ''x_unknown'')])])) =
     ((200, PDict [(''coordinates'',
                    PList [PList [PFloat (Fin 0), PFloat (Fin 0)],
                           PList [PFloat (Fin 0), PFloat (Fin 0)]]),
                   (''recordId'', PStr ''x_unknown'')]),
      [''LA_x_unknown'' \<mapsto>
         PDict [(''coordinates'',
                 PList [PList [PFloat (Fin 0), PFloat (Fin 0)],
                        PList [PFloat (Fin 0), PFloat (Fin 0)]]),
                (''recordId'', PStr ''x_unknown'')]]) \<and>
   map_of [(''KDPI'', PInt 1)] ''PTR_SEQUENCE_NUM'' = None \<and>
   generate_tsne example_world
     [''LA_x_unknown'' \<mapsto>
         PDict [(''coordinates'',
                 PList [PList [PFloat (Fin 0), PFloat (Fin 0)],
                        PList [PFloat (Fin 0), PFloat (Fin 0)]]),
                (''recordId'', PStr ''x_unknown'')]]
     ''LA_x'' (Inr (PDict [(''targetRecord'', PDict [(''KDPI'', PInt 1)])])) =
     ((200, PDict [(''coordinates'',
                    PList [PList [PFloat (Fin 0), PFloat (Fin 0)],
                           PList [PFloat (Fin 0), PFloat (Fin 0)]]),
                   (''recordId'', PStr ''x_unknown'')]),
      [''LA_x_unknown'' \<mapsto>
         PDict [(''coordinates'',
                 PList [PList [PFloat (Fin 0), PFloat (Fin 0)],
                        PList [PFloat (Fin 0), PFloat (Fin 0)]]),
                (''recordId'', PStr ''x_unknown'')]])"
proof -
  let ?R = "PDict [(''coordinates'',
                    PList [PList [PFloat (Fin 0), PFloat (Fin 0)],
                           PList [PFloat (Fin 0), PFloat (Fin 0)]]),
                   (''recordId'', PStr ''x_unknown'')]"
  have conv: "convertible_record [(''PTR_SEQUENCE_NUM'', PStr ''x_unknown'')]"
    by (simp add: convertible_record_def convertible_def)
  have first: "generate_tsne example_world Map.empty ''LA''
     (Inr (PDict [(''targetRecord'', PDict [(''PTR_SEQUENCE_NUM'', PStr ''x_unknown'')])])) =
     ((200, ?R), [''LA_x_unknown'' \<mapsto> ?R])"
    using example_world_body [OF _ _ conv refl, of "''LA''"
        "[(''targetRecord'', PDict [(''PTR_SEQUENCE_NUM'', PStr ''x_unknown'')])]" Map.empty]
    by (simp add: dict_get_def)
  have second: "generate_tsne example_world [''LA_x_unknown'' \<mapsto> ?R] ''LA_x''
     (Inr (PDict [(''targetRecord'', PDict [(''KDPI'', PInt 1)])])) =
     ((200, ?R), [''LA_x_unknown'' \<mapsto> ?R])"
    by (rule generate_tsne_hit [where t = "[(''KDPI'', PInt 1)]"])
      (simp_all add: dict_get_def)
  show ?thesis
    using first second by simp
qed

subsection \<open>From the target record to the first coordinate\<close>













subsection \<open>The projection call\<close>












end
